theory Spec2Isabelle
  imports Complex_Main
begin

section \<open>Strings of the JavaScript runtime\<close>

text \<open>
  A JavaScript string is modelled as a \<^typ>\<open>string\<close>: a list of code units, here the
  code units below 256 (the Latin-1 range of UTF-16). The builtins used by the pages are
  written out on that range.
\<close>

text \<open>\<^verbatim>\<open>String.prototype.toLowerCase\<close>: the letters A-Z and the upper-case letters of
  Latin-1 (0xC0-0xDE without the multiplication sign 0xD7) move up by 32.\<close>

definition toLowerCase_char :: "char \<Rightarrow> char" where
  "toLowerCase_char c =
     (let n = (of_char c :: nat) in
      if (65 \<le> n \<and> n \<le> 90) \<or> (192 \<le> n \<and> n \<le> 222 \<and> n \<noteq> 215)
      then char_of (n + 32) else c)"

definition toLowerCase :: "string \<Rightarrow> string" where
  "toLowerCase s = map toLowerCase_char s"

text \<open>White space as \<^verbatim>\<open>String.prototype.trim\<close> sees it: tab, line feed, vertical tab,
  form feed, carriage return, space and the no-break space.\<close>

definition isWhiteSpace :: "char \<Rightarrow> bool" where
  "isWhiteSpace c = ((of_char c :: nat) \<in> {9, 10, 11, 12, 13, 32, 160})"

definition trim :: "string \<Rightarrow> string" where
  "trim s = rev (dropWhile isWhiteSpace (rev (dropWhile isWhiteSpace s)))"

text \<open>\<^verbatim>\<open>Number.prototype.toString\<close> on an integer: its decimal digits, with a
  minus sign below zero.\<close>

fun digits :: "nat \<Rightarrow> string" where
  "digits n =
     (if n < 10 then [char_of (48 + n)]
      else digits (n div 10) @ [char_of (48 + n mod 10)])"

declare digits.simps [simp del]

definition toString :: "int \<Rightarrow> string" where
  "toString n = (if n < 0 then CHR ''-'' # digits (nat (- n)) else digits (nat n))"

fun startsWith :: "string \<Rightarrow> string \<Rightarrow> bool" where
  "startsWith s [] = True"
| "startsWith [] (p # ps) = False"
| "startsWith (c # cs) (p # ps) = (c = p \<and> startsWith cs ps)"

text \<open>
  The replacement text of \<^verbatim>\<open>String.prototype.replace\<close> is a template (the
  specification's GetSubstitution): \<^verbatim>\<open>$$\<close> stands for a dollar sign, \<^verbatim>\<open>$&\<close> for
  the matched text, \<^verbatim>\<open>$`\<close> for the part of the subject before the match and
  \<^verbatim>\<open>$'\<close> for the part after it. The patterns of this program have no capture
  groups, so \<^verbatim>\<open>$1\<close>, \<^verbatim>\<open>$<name>\<close> and every other character stay as they are.
\<close>

fun GetSubstitution :: "string \<Rightarrow> string \<Rightarrow> string \<Rightarrow> string \<Rightarrow> string" where
  "GetSubstitution matched pre post [] = []"
| "GetSubstitution matched pre post [c] = [c]"
| "GetSubstitution matched pre post (c # d # t) =
     (if c = CHR ''$'' \<and> d = CHR ''$'' then CHR ''$'' # GetSubstitution matched pre post t
      else if c = CHR ''$'' \<and> d = CHR ''&'' then matched @ GetSubstitution matched pre post t
      else if c = CHR ''$'' \<and> d = CHR 0x60 then pre @ GetSubstitution matched pre post t
      else if c = CHR ''$'' \<and> d = CHR 0x27 then post @ GetSubstitution matched pre post t
      else c # GetSubstitution matched pre post (d # t))"

text \<open>
  \<^verbatim>\<open>subject.replace(/pat/g, repl)\<close> for a pattern \<open>pat\<close> without metacharacters: the
  subject is scanned from the left, \<open>pre\<close> holding what has been passed; a match is
  replaced by the expanded template and the scan goes on behind it. The empty pattern
  matches before every code unit and at the end.
\<close>

fun replace_from :: "string \<Rightarrow> string \<Rightarrow> string \<Rightarrow> string \<Rightarrow> string" where
  "replace_from pat repl pre [] =
     (if pat = [] then GetSubstitution [] pre [] repl else [])"
| "replace_from pat repl pre (c # cs) =
     (if pat = [] then
        GetSubstitution [] pre (c # cs) repl @ c # replace_from pat repl (pre @ [c]) cs
      else if startsWith (c # cs) pat then
        GetSubstitution pat pre (drop (length pat) (c # cs)) repl
          @ replace_from pat repl (pre @ pat) (drop (length pat - 1) cs)
      else c # replace_from pat repl (pre @ [c]) cs)"

definition replace_global :: "string \<Rightarrow> string \<Rightarrow> string \<Rightarrow> string" where
  "replace_global subject pat repl = replace_from pat repl [] subject"

section \<open>The chat widget\<close>

datatype message_type = user | assistant

record ChatMessage =
  id' :: string
  type' :: message_type
  content :: string
  timestamp :: int

text \<open>The component state: the four \<^verbatim>\<open>useState\<close> cells. \<open>None\<close> is \<^verbatim>\<open>null\<close>.\<close>

record chat_state =
  input :: string
  messages :: "ChatMessage list"
  isLoading :: bool
  uploadedImage :: "string option"

definition anglerFishResponse :: string where
  \<open>anglerFishResponse =
     ''The fish in the image is a deep-sea anglerfish, a member of the order Lophiiformes. It's a fascinating creature known for its unique and eerie appearance, which is a result of its adaptation to life in the extreme environment of the deep sea.\<newline>'' @
     ''\<newline>'' @
     ''**Habitat and Characteristics**\<newline>'' @
     ''\<newline>'' @
     ''**Habitat:** Deep-sea anglerfish are found worldwide in the deep, dark parts of the ocean, typically in the bathypelagic or "midnight" zone, from the surface down to over 8,000 feet (2,500 meters). They are either midwater or seafloor dwellers.\<newline>'' @
     ''\<newline>'' @
     ''**Appearance:** They are famous for their menacing appearance, which includes a bulbous body, a huge mouth, and long, sharp, inwardly-pointing teeth. Their skin is typically dark, ranging from grey to dark brown.\<newline>'' @
     ''\<newline>'' @
     ''**The "Lure":** The most distinctive feature is the bioluminescent lure that dangles from a modified dorsal fin ray on the top of the female's head. This lure, called an esca, contains millions of light-producing bacteria that glow brightly in the dark. The anglerfish can control the light, either flashing it to attract curious prey or hiding it with a muscular flap. This is a brilliant hunting strategy, as it conserves energy in a food-scarce environment.\<newline>'' @
     ''\<newline>'' @
     ''**Diet:** They are ambush predators, using their lure to attract small fish and crustaceans. Their expandable jaw and stomach allow them to swallow prey up to twice their own size.\<newline>'' @
     ''\<newline>'' @
     ''**Reproduction**\<newline>'' @
     ''\<newline>'' @
     ''The reproduction of deep-sea anglerfish is one of the most bizarre and extreme in the animal kingdom.\<newline>'' @
     ''\<newline>'' @
     ''**Sexual Dimorphism:** There is a vast difference between the sizes of the male and female anglerfish. Females are large, predatory, and have the lure. Males are tiny, often only a few centimeters long, and lack the lure or the large mouth and teeth.\<newline>'' @
     ''\<newline>'' @
     ''**Parasitic Mating:** To ensure reproduction in the vast, dark ocean where finding a mate is a rare event, some species of male anglerfish are parasitic. When a male finds a female, he bites onto her and attaches permanently. His body fuses with hers, and he becomes a permanent appendage, getting all his nutrition from her bloodstream. He essentially becomes a "sperm factory," providing her with a constant supply of sperm for fertilization.\<newline>'' @
     ''\<newline>'' @
     ''**Superstitions and Folklore**\<newline>'' @
     ''\<newline>'' @
     ''Unlike some other deep-sea creatures like the oarfish (often called the "doomsday fish" for its supposed connection to earthquakes), there are no widespread or well-known superstitions specifically about the anglerfish. Its rarity and the difficulty of observing it in its natural habitat mean it has not been a part of human folklore for very long.\<newline>'' @
     ''\<newline>'' @
     ''However, the general themes of deep-sea creatures and their appearances in shallower waters have, in recent times, been associated with superstition and portents of doom. For example, some people link the surfacing of deep-sea animals to impending environmental changes or natural disasters. These are modern interpretations rather than traditional folklore.''\<close>

definition generateResponse :: "string \<Rightarrow> bool \<Rightarrow> string" where
  "generateResponse query hasImage =
     (if hasImage then anglerFishResponse
      else
        (let fishName = toLowerCase query in
         replace_global
           (replace_global
             (replace_global
               (replace_global anglerFishResponse ''fish in the image'' fishName)
               ''anglerfish'' fishName)
             ''The fish'' (''The '' @ fishName))
           ''deep-sea anglerfish'' fishName))"

text \<open>A value used as a condition: \<^verbatim>\<open>null\<close> and the empty string are falsy.\<close>

definition truthy_string :: "string option \<Rightarrow> bool" where
  "truthy_string v = (case v of None \<Rightarrow> False | Some s \<Rightarrow> s \<noteq> [])"

text \<open>
  \<^verbatim>\<open>handleSubmit\<close> runs in two parts, before and after the awaited timer.
  \<open>now\<close> is what \<^verbatim>\<open>Date.now()\<close> returns and \<open>date\<close> what \<^verbatim>\<open>new Date()\<close>
  holds, both in milliseconds. The first part returns the locals \<open>query\<close> and
  \<open>hasImage\<close> that the second part needs, or \<open>None\<close> after the early return.
\<close>

definition handleSubmit_before_await ::
    "int \<Rightarrow> int \<Rightarrow> chat_state \<Rightarrow> chat_state \<times> (string \<times> bool) option" where
  "handleSubmit_before_await now date s =
     (if trim (input s) = [] \<and> \<not> truthy_string (uploadedImage s) then (s, None)
      else
        (let userMessage =
               \<lparr>id' = toString now, type' = user,
                content = (if input s \<noteq> [] then input s else ''Image uploaded''),
                timestamp = date\<rparr>;
             query = input s;
             hasImage = truthy_string (uploadedImage s)
         in (s\<lparr>messages := messages s @ [userMessage], isLoading := True,
               input := [], uploadedImage := None\<rparr>,
             Some (query, hasImage))))"

definition handleSubmit_after_await ::
    "int \<Rightarrow> int \<Rightarrow> string \<times> bool \<Rightarrow> chat_state \<Rightarrow> chat_state" where
  "handleSubmit_after_await now date locals s =
     (let assistantMessage =
            \<lparr>id' = toString (now + 1), type' = assistant,
             content = generateResponse (fst locals) (snd locals),
             timestamp = date\<rparr>
      in s\<lparr>messages := messages s @ [assistantMessage], isLoading := False\<rparr>)"

text \<open>One submission with nothing else happening during the two seconds of the timer.\<close>

definition handleSubmit :: "int \<Rightarrow> int \<Rightarrow> int \<Rightarrow> int \<Rightarrow> chat_state \<Rightarrow> chat_state" where
  "handleSubmit now1 date1 now2 date2 s =
     (case handleSubmit_before_await now1 date1 s of
        (s', None) \<Rightarrow> s'
      | (s', Some locals) \<Rightarrow> handleSubmit_after_await now2 date2 locals s')"

text \<open>
  The response as the specification words it: every occurrence of a text is replaced by
  another text, taken as it is.
\<close>

fun spec_replace_every :: "string \<Rightarrow> string \<Rightarrow> string \<Rightarrow> string" where
  "spec_replace_every [] pat repl = []"
| "spec_replace_every (c # cs) pat repl =
     (if pat \<noteq> [] \<and> startsWith (c # cs) pat
      then repl @ spec_replace_every (drop (length pat - 1) cs) pat repl
      else c # spec_replace_every cs pat repl)"

definition spec_response :: "string \<Rightarrow> string" where
  "spec_response q =
     spec_replace_every
       (spec_replace_every
         (spec_replace_every
           (spec_replace_every anglerFishResponse ''fish in the image'' (toLowerCase q))
           ''anglerfish'' (toLowerCase q))
         ''The fish'' (''The '' @ toLowerCase q))
       ''deep-sea anglerfish'' (toLowerCase q)"

text \<open>A replacement text in which no dollar sign starts a template pattern.\<close>

fun plain_template :: "string \<Rightarrow> bool" where
  "plain_template [] = True"
| "plain_template [c] = True"
| "plain_template (c # d # t) =
     (\<not> (c = CHR ''$'' \<and> d \<in> {CHR ''$'', CHR ''&'', CHR 0x60, CHR 0x27}) \<and> plain_template (d # t))"

section \<open>Values of the JavaScript runtime\<close>

text \<open>
  What \<^verbatim>\<open>response.json()\<close> can produce where the page declares \<^verbatim>\<open>any\<close>, together
  with \<^verbatim>\<open>undefined\<close>, the result of reading a property that is not there. A number of
  a JSON text is finite and is modelled by its real value. An object is the list of its
  own properties, each key once, in the order in which the runtime enumerates them: the
  keys that are array indices first, in ascending order, then the other keys in the order
  of the JSON text.
\<close>

datatype jsval =
    JUndefined
  | JNull
  | JBool bool
  | JNum real
  | JStr string
  | JArr "jsval list"
  | JObj "(string \<times> jsval) list"

text \<open>
  What a render can throw: a \<^verbatim>\<open>TypeError\<close> while the component function runs, and
  afterwards the error of React for a child that is a plain object (\<^verbatim>\<open>Objects are not
  valid as a React child\<close>).
\<close>

datatype js_error = TypeError | InvalidChild

definition bind_error :: "js_error + 'a \<Rightarrow> ('a \<Rightarrow> js_error + 'b) \<Rightarrow> js_error + 'b" where
  "bind_error m f = (case m of Inl e \<Rightarrow> Inl e | Inr x \<Rightarrow> f x)"

fun traverse :: "('a \<Rightarrow> js_error + 'b) \<Rightarrow> 'a list \<Rightarrow> js_error + 'b list" where
  "traverse f [] = Inr []"
| "traverse f (x # xs) =
     bind_error (f x) (\<lambda>y. bind_error (traverse f xs) (\<lambda>ys. Inr (y # ys)))"

fun truthy :: "jsval \<Rightarrow> bool" where
  "truthy JUndefined = False"
| "truthy JNull = False"
| "truthy (JBool b) = b"
| "truthy (JNum x) = (x \<noteq> 0)"
| "truthy (JStr s) = (s \<noteq> [])"
| "truthy (JArr xs) = True"
| "truthy (JObj kvs) = True"

text \<open>The index that a property key denotes in an array or string of length \<open>n\<close>.\<close>

definition array_index :: "string \<Rightarrow> nat \<Rightarrow> nat option" where
  "array_index k n = List.find (\<lambda>i. digits i = k) [0..<n]"

text \<open>
  Reading the property \<open>k\<close> of a value, \<^verbatim>\<open>v.k\<close>: a \<^verbatim>\<open>TypeError\<close> on
  \<^verbatim>\<open>undefined\<close> and \<^verbatim>\<open>null\<close>, otherwise the own property or \<^verbatim>\<open>undefined\<close>.
  The keys that the page reads name no method of a prototype object.
\<close>

fun get :: "jsval \<Rightarrow> string \<Rightarrow> js_error + jsval" where
  "get JUndefined k = Inl TypeError"
| "get JNull k = Inl TypeError"
| "get (JBool b) k = Inr JUndefined"
| "get (JNum x) k = Inr JUndefined"
| "get (JStr s) k =
     (if k = ''length'' then Inr (JNum (real (length s)))
      else case array_index k (length s) of
             None \<Rightarrow> Inr JUndefined
           | Some i \<Rightarrow> Inr (JStr [s ! i]))"
| "get (JArr xs) k =
     (if k = ''length'' then Inr (JNum (real (length xs)))
      else case array_index k (length xs) of
             None \<Rightarrow> Inr JUndefined
           | Some i \<Rightarrow> Inr (xs ! i))"
| "get (JObj kvs) k =
     (case map_of kvs k of None \<Rightarrow> Inr JUndefined | Some v \<Rightarrow> Inr v)"

text \<open>\<^verbatim>\<open>Object.entries\<close>.\<close>

fun Object_entries :: "jsval \<Rightarrow> js_error + (string \<times> jsval) list" where
  "Object_entries JUndefined = Inl TypeError"
| "Object_entries JNull = Inl TypeError"
| "Object_entries (JBool b) = Inr []"
| "Object_entries (JNum x) = Inr []"
| "Object_entries (JStr s) = Inr (map (\<lambda>i. (digits i, JStr [s ! i])) [0..<length s])"
| "Object_entries (JArr xs) = Inr (map (\<lambda>i. (digits i, xs ! i)) [0..<length xs])"
| "Object_entries (JObj kvs) = Inr kvs"

text \<open>
  What a JSX expression \<^verbatim>\<open>{e}\<close> puts into the element tree: the value itself, or the
  call \<^verbatim>\<open>x.toFixed(n)\<close> on a number, kept as the call.
\<close>

datatype child = Value jsval | Fixed nat real

text \<open>
  What React accepts as a child when it builds the page from the element tree: text,
  numbers, the values that show nothing (\<^verbatim>\<open>undefined\<close>, \<^verbatim>\<open>null\<close>, booleans) and
  arrays of such; a plain object makes it throw.
\<close>

fun valid_child :: "jsval \<Rightarrow> bool"
  and valid_children :: "jsval list \<Rightarrow> bool" where
  "valid_child (JObj kvs) = False"
| "valid_child (JArr xs) = valid_children xs"
| "valid_child JUndefined = True"
| "valid_child JNull = True"
| "valid_child (JBool b) = True"
| "valid_child (JNum x) = True"
| "valid_child (JStr s) = True"
| "valid_children [] = True"
| "valid_children (x # xs) = (valid_child x \<and> valid_children xs)"

fun accepted :: "child \<Rightarrow> bool" where
  "accepted (Value v) = valid_child v"
| "accepted (Fixed n x) = True"

text \<open>\<^verbatim>\<open>v.toFixed(n)\<close>: only a number has the method.\<close>

fun toFixed :: "jsval \<Rightarrow> nat \<Rightarrow> js_error + child" where
  "toFixed (JNum x) n = Inr (Fixed n x)"
| "toFixed v n = Inl TypeError"

subsection \<open>Comparing a value with zero\<close>

text \<open>
  \<^verbatim>\<open>v > 0\<close> turns \<open>v\<close> into a number first. The numbers that this can give: a real
  value, the two infinities and \<^verbatim>\<open>NaN\<close>.
\<close>

datatype js_number = NaN | Finite real | PlusInfinity | MinusInfinity

definition isDecimalDigit :: "char \<Rightarrow> bool" where
  "isDecimalDigit c = (48 \<le> (of_char c :: nat) \<and> (of_char c :: nat) \<le> 57)"

definition isBinaryDigit :: "char \<Rightarrow> bool" where
  "isBinaryDigit c = (48 \<le> (of_char c :: nat) \<and> (of_char c :: nat) \<le> 49)"

definition isOctalDigit :: "char \<Rightarrow> bool" where
  "isOctalDigit c = (48 \<le> (of_char c :: nat) \<and> (of_char c :: nat) \<le> 55)"

definition isHexDigit :: "char \<Rightarrow> bool" where
  "isHexDigit c =
     (isDecimalDigit c \<or> (97 \<le> (of_char c :: nat) \<and> (of_char c :: nat) \<le> 102)
        \<or> (65 \<le> (of_char c :: nat) \<and> (of_char c :: nat) \<le> 70))"

text \<open>The value of a digit: 0-9, a-f, A-F.\<close>

definition digit_value :: "char \<Rightarrow> nat" where
  "digit_value c =
     (let n = (of_char c :: nat) in
      if 97 \<le> n then n - 87 else if 65 \<le> n then n - 55 else n - 48)"

definition digits_value :: "nat \<Rightarrow> string \<Rightarrow> nat" where
  "digits_value base ds = foldl (\<lambda>acc c. acc * base + digit_value c) 0 ds"

text \<open>The exponent part that ends a decimal literal; nothing at all is the exponent 0.\<close>

definition ExponentPart :: "string \<Rightarrow> int option" where
  "ExponentPart s =
     (case s of
        [] \<Rightarrow> Some 0
      | c # r \<Rightarrow>
          if c = CHR ''e'' \<or> c = CHR ''E'' then
            (case r of
               [] \<Rightarrow> None
             | d # ds \<Rightarrow>
                 if d = CHR ''+'' then
                   (if ds \<noteq> [] \<and> list_all isDecimalDigit ds
                    then Some (int (digits_value 10 ds)) else None)
                 else if d = CHR ''-'' then
                   (if ds \<noteq> [] \<and> list_all isDecimalDigit ds
                    then Some (- int (digits_value 10 ds)) else None)
                 else
                   (if list_all isDecimalDigit (d # ds)
                    then Some (int (digits_value 10 (d # ds))) else None))
          else None)"

text \<open>
  \<^verbatim>\<open>Infinity\<close>, or digits with an optional fraction and exponent, at least one digit
  before or after the point. The result is the value that the literal denotes, before it
  is rounded to a double.
\<close>

definition StrUnsignedDecimalLiteral :: "string \<Rightarrow> js_number" where
  "StrUnsignedDecimalLiteral s =
     (if s = ''Infinity'' then PlusInfinity
      else
        (let whole = takeWhile isDecimalDigit s;
             r1 = dropWhile isDecimalDigit s;
             point = (r1 \<noteq> [] \<and> hd r1 = CHR ''.'');
             fraction = (if point then takeWhile isDecimalDigit (tl r1) else []);
             r2 = (if point then dropWhile isDecimalDigit (tl r1) else r1)
         in if whole = [] \<and> fraction = [] then NaN
            else
              (case ExponentPart r2 of
                 None \<Rightarrow> NaN
               | Some e \<Rightarrow>
                   (let mantissa = real (digits_value 10 whole)
                          + real (digits_value 10 fraction) / 10 ^ length fraction
                    in Finite (if 0 \<le> e then mantissa * 10 ^ nat e
                               else mantissa / 10 ^ nat (- e))))))"

definition negate :: "js_number \<Rightarrow> js_number" where
  "negate n =
     (case n of
        NaN \<Rightarrow> NaN
      | Finite x \<Rightarrow> Finite (- x)
      | PlusInfinity \<Rightarrow> MinusInfinity
      | MinusInfinity \<Rightarrow> PlusInfinity)"

definition StrDecimalLiteral :: "string \<Rightarrow> js_number" where
  "StrDecimalLiteral s =
     (case s of
        [] \<Rightarrow> NaN
      | c # r \<Rightarrow>
          if c = CHR ''+'' then StrUnsignedDecimalLiteral r
          else if c = CHR ''-'' then negate (StrUnsignedDecimalLiteral r)
          else StrUnsignedDecimalLiteral s)"

text \<open>\<^verbatim>\<open>0b\<close>, \<^verbatim>\<open>0o\<close> and \<^verbatim>\<open>0x\<close> literals, which take no sign.\<close>

definition NonDecimalIntegerLiteral :: "string \<Rightarrow> nat option" where
  "NonDecimalIntegerLiteral s =
     (case s of
        z # p # ds \<Rightarrow>
          if z \<noteq> CHR ''0'' \<or> ds = [] then None
          else if (p = CHR ''b'' \<or> p = CHR ''B'') \<and> list_all isBinaryDigit ds
            then Some (digits_value 2 ds)
          else if (p = CHR ''o'' \<or> p = CHR ''O'') \<and> list_all isOctalDigit ds
            then Some (digits_value 8 ds)
          else if (p = CHR ''x'' \<or> p = CHR ''X'') \<and> list_all isHexDigit ds
            then Some (digits_value 16 ds)
          else None
      | _ \<Rightarrow> None)"

text \<open>The number that a string denotes: white space around it is dropped, the empty
  string is 0, and what is not a numeric literal is \<^verbatim>\<open>NaN\<close>.\<close>

definition StringToNumber :: "string \<Rightarrow> js_number" where
  "StringToNumber s =
     (let t = trim s in
      if t = [] then Finite 0
      else
        (case NonDecimalIntegerLiteral t of
           Some n \<Rightarrow> Finite (real n)
         | None \<Rightarrow> StrDecimalLiteral t))"

text \<open>
  Turning an object into a primitive calls its \<^verbatim>\<open>toString\<close>, which gives
  \<^verbatim>\<open>[object Object]\<close>; an object of a JSON text that has a property of that name hides the
  method by a value that cannot be called, and the conversion throws. An array is joined
  with commas, which converts its elements.
\<close>

fun ToString_throws :: "jsval \<Rightarrow> bool"
  and ToString_throws_list :: "jsval list \<Rightarrow> bool" where
  "ToString_throws (JObj kvs) = (map_of kvs ''toString'' \<noteq> None)"
| "ToString_throws (JArr xs) = ToString_throws_list xs"
| "ToString_throws JUndefined = False"
| "ToString_throws JNull = False"
| "ToString_throws (JBool b) = False"
| "ToString_throws (JNum x) = False"
| "ToString_throws (JStr s) = False"
| "ToString_throws_list [] = False"
| "ToString_throws_list (x # xs) = (ToString_throws x \<or> ToString_throws_list xs)"

text \<open>
  The number that the joined text of an array denotes. An element that is
  \<^verbatim>\<open>undefined\<close> or \<^verbatim>\<open>null\<close> is joined as the empty text; the text of a number denotes
  that number; two or more elements give a text with a comma, which is no number.
\<close>

fun element_number :: "jsval \<Rightarrow> js_number"
  and array_number :: "jsval list \<Rightarrow> js_number" where
  "element_number JUndefined = Finite 0"
| "element_number JNull = Finite 0"
| "element_number (JBool b) = NaN"
| "element_number (JNum x) = Finite x"
| "element_number (JStr s) = StringToNumber s"
| "element_number (JArr xs) = array_number xs"
| "element_number (JObj kvs) = NaN"
| "array_number [] = Finite 0"
| "array_number [x] = element_number x"
| "array_number (x # y # zs) = NaN"

text \<open>
  Whether the double nearest to the number is greater than zero. The smallest positive
  double is 2 to the power of -1074; a value up to half of it rounds to zero.
\<close>

definition positive_number :: "js_number \<Rightarrow> bool" where
  "positive_number n =
     (case n of
        NaN \<Rightarrow> False
      | Finite x \<Rightarrow> 1 / 2 ^ 1075 < x
      | PlusInfinity \<Rightarrow> True
      | MinusInfinity \<Rightarrow> False)"

text \<open>\<^verbatim>\<open>v > 0\<close>.\<close>

fun greater_zero :: "jsval \<Rightarrow> js_error + bool" where
  "greater_zero JUndefined = Inr False"
| "greater_zero JNull = Inr False"
| "greater_zero (JBool b) = Inr b"
| "greater_zero (JNum x) = Inr (0 < x)"
| "greater_zero (JStr s) = Inr (positive_number (StringToNumber s))"
| "greater_zero (JArr xs) =
     (if ToString_throws_list xs then Inl TypeError
      else Inr (positive_number (array_number xs)))"
| "greater_zero (JObj kvs) =
     (if map_of kvs ''toString'' \<noteq> None then Inl TypeError else Inr False)"

text \<open>\<^verbatim>\<open>v && e\<close> inside JSX: the element when \<open>v\<close> is truthy, else \<open>v\<close> itself.\<close>

datatype 'a guarded = Shown 'a | Falsy jsval

fun accepted_guarded :: "('a \<Rightarrow> bool) \<Rightarrow> 'a guarded \<Rightarrow> bool" where
  "accepted_guarded p (Shown x) = p x"
| "accepted_guarded p (Falsy v) = valid_child v"

section \<open>The analysis page\<close>

text \<open>
  The type \<^verbatim>\<open>CrossDomainAnalysis\<close>. The body of the response is cast to it and not
  checked, so the model takes the body at this type.
\<close>

record visualizations_t =
  correlation_heatmap :: jsval
  scatter_matrix :: jsval
  species_environment :: jsval
  environmental_gradients :: jsval
  biodiversity_hotspots :: jsval
  statistical_summary :: jsval

record metadata_t =
  analysis_type :: string
  biodiversity_species :: real
  biodiversity_points :: real
  ocean_variables :: "string list"
  region :: string

record CrossDomainAnalysis =
  visualizations :: visualizations_t
  metadata :: metadata_t

datatype tab = overview | correlations | gradients | hotspots | statistics

record page_state =
  crossDomainData :: "CrossDomainAnalysis option"
  loading :: bool
  error :: "string option"
  activeTab :: tab

definition initial_state :: page_state where
  "initial_state =
     \<lparr>crossDomainData = None, loading = True, error = None, activeTab = overview\<rparr>"

definition API_BASE_URL :: string where
  "API_BASE_URL = ''http://localhost:5000/api''"

text \<open>What the page asks of the browser: a \<^verbatim>\<open>fetch\<close> of a URL with the default method
  GET, and a reload of the document.\<close>

datatype effect = HttpGet string | LocationReload

text \<open>
  The outcome of the \<^verbatim>\<open>fetch\<close>: the promise rejects with an error that has a
  message, or it resolves to a response. \<open>json\<close> is the outcome of
  \<^verbatim>\<open>response.json()\<close>, \<open>Inl\<close> holding the message of its error.
\<close>

record response =
  ok :: bool
  status :: nat
  json :: "string + CrossDomainAnalysis"

datatype fetch_result = Rejected string | Resolved response

text \<open>\<^verbatim>\<open>loadCrossDomainAnalysis\<close> up to the awaited \<^verbatim>\<open>fetch\<close>.\<close>

definition loadCrossDomainAnalysis_request :: "page_state \<Rightarrow> page_state \<times> effect list" where
  "loadCrossDomainAnalysis_request s =
     (s\<lparr>loading := True\<rparr>, [HttpGet (API_BASE_URL @ ''/cross-domain-analysis'')])"

text \<open>The \<^verbatim>\<open>try\<close> block after the \<^verbatim>\<open>fetch\<close>: the data, or the message of what is
  thrown.\<close>

definition try_block :: "fetch_result \<Rightarrow> string + CrossDomainAnalysis" where
  "try_block r =
     (case r of
        Rejected message \<Rightarrow> Inl message
      | Resolved response \<Rightarrow>
          if \<not> ok response then
            (if status response = 0 \<or> status response \<ge> 500
             then Inl ''Backend server is not running. Please start it with: python app.py''
             else Inl ''Failed to load cross-domain analysis data'')
          else json response)"

definition loadCrossDomainAnalysis_settled :: "fetch_result \<Rightarrow> page_state \<Rightarrow> page_state" where
  "loadCrossDomainAnalysis_settled r s =
     (case try_block r of
        Inr data \<Rightarrow> s\<lparr>crossDomainData := Some data, loading := False\<rparr>
      | Inl message \<Rightarrow> s\<lparr>error := Some message, loading := False\<rparr>)"

text \<open>A page load: the component mounts with its initial state and the effect with the
  empty dependency list runs, once.\<close>

definition mount :: "page_state \<times> effect list" where
  "mount = loadCrossDomainAnalysis_request initial_state"

subsection \<open>What the page renders\<close>

text \<open>
  The element tree without its fixed texts and styling: the values put into it, the plots
  with the properties they are given, and the buttons with their handlers.
\<close>

datatype action = setActiveTab tab | window_location_reload

type_synonym button = "string \<times> action"

record plot =
  plot_data :: jsval
  plot_layout :: jsval
  staticPlot :: bool

text \<open>\<^verbatim>\<open><PlotlyComponent data={v.data} layout={{...v.layout, ...}} config=... />\<close>\<close>

definition PlotlyComponent :: "jsval \<Rightarrow> bool \<Rightarrow> js_error + plot" where
  "PlotlyComponent v static =
     bind_error (get v ''data'') (\<lambda>d.
     bind_error (get v ''layout'') (\<lambda>l.
     Inr \<lparr>plot_data = d, plot_layout = l, staticPlot = static\<rparr>))"

definition guard :: "jsval \<Rightarrow> js_error + 'a \<Rightarrow> js_error + 'a guarded" where
  "guard v m = (if truthy v then bind_error m (\<lambda>x. Inr (Shown x)) else Inr (Falsy v))"

record biodiversity_cells =
  total_species :: child
  total_observations :: child
  mean_abundance :: child
  max_abundance :: child

record ocean_cells =
  ocean_variable :: string
  ocean_mean :: child
  ocean_unit :: child
  ocean_min :: child
  ocean_max :: child
  ocean_std :: child

record insight_cells =
  insight_species :: child
  insight_variable :: child
  insight_correlation :: child
  insight_p_value :: child

record statistics_panel =
  biodiversity_summary_cells :: biodiversity_cells
  ocean_conditions_cells :: "ocean_cells list"
  significant_correlations :: "insight_cells list guarded"

text \<open>
  The blocks of the statistics tab as the component function evaluates them: reading a
  property or calling \<^verbatim>\<open>toFixed\<close> can throw there, and a value put between braces
  goes into the element tree as it is. Whether React accepts the children of the tree is
  decided afterwards, by \<open>accepted_content\<close> in \<open>render\<close>.
\<close>

definition biodiversity_summary_block :: "jsval \<Rightarrow> js_error + biodiversity_cells" where
  "biodiversity_summary_block summary =
     bind_error (get summary ''biodiversity_summary'') (\<lambda>b.
     bind_error (get b ''total_species'') (\<lambda>species.
     bind_error (get b ''total_observations'') (\<lambda>observations.
     bind_error (get b ''abundance_stats'') (\<lambda>a.
     bind_error (get a ''mean'') (\<lambda>m.
     bind_error (toFixed m 2) (\<lambda>mean_fixed.
     bind_error (get a ''max'') (\<lambda>mx.
     Inr \<lparr>total_species = Value species, total_observations = Value observations,
          mean_abundance = mean_fixed, max_abundance = Value mx\<rparr>)))))))"

definition ocean_conditions_row :: "string \<times> jsval \<Rightarrow> js_error + ocean_cells" where
  "ocean_conditions_row entry =
     (let variable = fst entry; stats = snd entry in
      bind_error (get stats ''mean'') (\<lambda>m.
      bind_error (toFixed m 2) (\<lambda>mean_fixed.
      bind_error (get stats ''unit'') (\<lambda>unit.
      bind_error (get stats ''min'') (\<lambda>mn.
      bind_error (toFixed mn 2) (\<lambda>min_fixed.
      bind_error (get stats ''max'') (\<lambda>mx.
      bind_error (toFixed mx 2) (\<lambda>max_fixed.
      bind_error (get stats ''std'') (\<lambda>sd.
      bind_error (toFixed sd 2) (\<lambda>std_fixed.
      Inr \<lparr>ocean_variable = variable, ocean_mean = mean_fixed, ocean_unit = Value unit,
           ocean_min = min_fixed, ocean_max = max_fixed, ocean_std = std_fixed\<rparr>))))))))))"

definition correlation_insight_row :: "jsval \<Rightarrow> js_error + insight_cells" where
  "correlation_insight_row insight =
     bind_error (get insight ''species'') (\<lambda>sp.
     bind_error (get insight ''variable'') (\<lambda>var.
     bind_error (get insight ''correlation'') (\<lambda>c.
     bind_error (toFixed c 3) (\<lambda>c_fixed.
     bind_error (get insight ''p_value'') (\<lambda>p.
     bind_error (toFixed p 3) (\<lambda>p_fixed.
     Inr \<lparr>insight_species = Value sp, insight_variable = Value var,
          insight_correlation = c_fixed, insight_p_value = p_fixed\<rparr>))))))"

text \<open>\<^verbatim>\<open>insights && insights.length > 0 && (... insights.map(...) ...)\<close>; only an array
  has \<^verbatim>\<open>map\<close>.\<close>

definition significant_correlations_block :: "jsval \<Rightarrow> js_error + insight_cells list guarded" where
  "significant_correlations_block insights =
     (if \<not> truthy insights then Inr (Falsy insights)
      else
        bind_error (get insights ''length'') (\<lambda>n.
        bind_error (greater_zero n) (\<lambda>positive.
        if \<not> positive then Inr (Falsy (JBool False))
        else
          (case insights of
             JArr xs \<Rightarrow>
               bind_error (traverse correlation_insight_row xs) (\<lambda>rows. Inr (Shown rows))
           | _ \<Rightarrow> Inl TypeError))))"

definition statistics_block :: "jsval \<Rightarrow> js_error + statistics_panel" where
  "statistics_block summary =
     bind_error (biodiversity_summary_block summary) (\<lambda>cells.
     bind_error (get summary ''ocean_conditions_summary'') (\<lambda>conditions.
     bind_error (Object_entries conditions) (\<lambda>entries.
     bind_error (traverse ocean_conditions_row entries) (\<lambda>rows.
     bind_error (get summary ''correlation_insights'') (\<lambda>insights.
     bind_error (significant_correlations_block insights) (\<lambda>table.
     Inr \<lparr>biodiversity_summary_cells = cells, ocean_conditions_cells = rows,
          significant_correlations = table\<rparr>))))))"

text \<open>The children of the statistics tab that come from the response.\<close>

definition accepted_biodiversity :: "biodiversity_cells \<Rightarrow> bool" where
  "accepted_biodiversity c =
     (accepted (total_species c) \<and> accepted (total_observations c) \<and>
      accepted (mean_abundance c) \<and> accepted (max_abundance c))"

definition accepted_ocean :: "ocean_cells \<Rightarrow> bool" where
  "accepted_ocean c =
     (accepted (ocean_mean c) \<and> accepted (ocean_unit c) \<and> accepted (ocean_min c) \<and>
      accepted (ocean_max c) \<and> accepted (ocean_std c))"

definition accepted_insight :: "insight_cells \<Rightarrow> bool" where
  "accepted_insight c =
     (accepted (insight_species c) \<and> accepted (insight_variable c) \<and>
      accepted (insight_correlation c) \<and> accepted (insight_p_value c))"

definition accepted_panel :: "statistics_panel \<Rightarrow> bool" where
  "accepted_panel p =
     (accepted_biodiversity (biodiversity_summary_cells p) \<and>
      list_all accepted_ocean (ocean_conditions_cells p) \<and>
      accepted_guarded (list_all accepted_insight) (significant_correlations p))"

definition gradient_plot :: "string \<times> jsval \<Rightarrow> js_error + string \<times> plot" where
  "gradient_plot entry =
     bind_error (PlotlyComponent (snd entry) True) (\<lambda>p. Inr (fst entry, p))"

datatype tab_content =
    OverviewTab
  | CorrelationsTab "plot guarded" "plot guarded" "plot guarded"
  | GradientsTab "(string \<times> plot) list guarded"
  | HotspotsTab "plot guarded"
  | StatisticsTab "statistics_panel guarded"

text \<open>The content under the tab buttons: fixed text for the overview; for the other tabs
  nothing while there is no data.\<close>

definition tab_panel :: "tab \<Rightarrow> CrossDomainAnalysis option \<Rightarrow> js_error + tab_content option" where
  "tab_panel t dat =
     (case t of
        overview \<Rightarrow> Inr (Some OverviewTab)
      | _ \<Rightarrow>
        (case dat of
           None \<Rightarrow> Inr None
         | Some d \<Rightarrow>
           (let v = visualizations d in
            case t of
              overview \<Rightarrow> Inr (Some OverviewTab)
            | correlations \<Rightarrow>
                bind_error (guard (correlation_heatmap v)
                              (PlotlyComponent (correlation_heatmap v) True)) (\<lambda>heatmap.
                bind_error (guard (scatter_matrix v)
                              (PlotlyComponent (scatter_matrix v) True)) (\<lambda>scatter.
                bind_error (guard (species_environment v)
                              (PlotlyComponent (species_environment v) True)) (\<lambda>species.
                Inr (Some (CorrelationsTab heatmap scatter species)))))
            | gradients \<Rightarrow>
                bind_error (guard (environmental_gradients v)
                              (bind_error (Object_entries (environmental_gradients v))
                                 (traverse gradient_plot))) (\<lambda>plots.
                Inr (Some (GradientsTab plots)))
            | hotspots \<Rightarrow>
                bind_error (guard (biodiversity_hotspots v)
                              (PlotlyComponent (biodiversity_hotspots v) False)) (\<lambda>p.
                Inr (Some (HotspotsTab p)))
            | statistics \<Rightarrow>
                bind_error (guard (statistical_summary v)
                              (statistics_block (statistical_summary v))) (\<lambda>panel.
                Inr (Some (StatisticsTab panel))))))"

text \<open>The children of the content that come from the response; a plot is given its data
  as properties and has no such child.\<close>

fun accepted_content :: "tab_content \<Rightarrow> bool" where
  "accepted_content OverviewTab = True"
| "accepted_content (CorrelationsTab heatmap scatter species) =
     (accepted_guarded (\<lambda>p. True) heatmap \<and> accepted_guarded (\<lambda>p. True) scatter \<and>
      accepted_guarded (\<lambda>p. True) species)"
| "accepted_content (GradientsTab plots) = accepted_guarded (\<lambda>ps. True) plots"
| "accepted_content (HotspotsTab p) = accepted_guarded (\<lambda>p. True) p"
| "accepted_content (StatisticsTab panel) = accepted_guarded accepted_panel panel"

record overview_stats =
  species_analyzed :: real
  data_points :: real
  ocean_variables_length :: nat

definition overview_stats_block :: "CrossDomainAnalysis \<Rightarrow> overview_stats" where
  "overview_stats_block d =
     \<lparr>species_analyzed = biodiversity_species (metadata d),
      data_points = biodiversity_points (metadata d),
      ocean_variables_length = length (ocean_variables (metadata d))\<rparr>"

definition tab_buttons :: "button list" where
  "tab_buttons =
     [(''Overview'', setActiveTab overview),
      (''Correlations'', setActiveTab correlations),
      (''Environmental Gradients'', setActiveTab gradients),
      (''Biodiversity Hotspots'', setActiveTab hotspots),
      (''Statistics'', setActiveTab statistics)]"

datatype view =
    LoadingView
  | ErrorView string "button list"
  | PageView "overview_stats option" "button list" "tab_content option"

text \<open>
  A render: the component function returns the element tree or throws; React then builds
  the page from the tree and throws on a child that it does not accept.
\<close>

definition render :: "page_state \<Rightarrow> js_error + view" where
  "render s =
     (if loading s then Inr LoadingView
      else if truthy_string (error s) then
        Inr (ErrorView (case error s of Some message \<Rightarrow> message | None \<Rightarrow> [])
               [(''Retry'', window_location_reload)])
      else
        bind_error (tab_panel (activeTab s) (crossDomainData s)) (\<lambda>panel.
        if (case panel of None \<Rightarrow> True | Some c \<Rightarrow> accepted_content c)
        then Inr (PageView (map_option overview_stats_block (crossDomainData s))
                    tab_buttons panel)
        else Inl InvalidChild))"

subsection \<open>What the user can do on the page\<close>

fun buttons :: "view \<Rightarrow> button list" where
  "buttons LoadingView = []"
| "buttons (ErrorView message bs) = bs"
| "buttons (PageView stats bs panel) = bs"

text \<open>The click handlers.\<close>

fun onClick :: "action \<Rightarrow> page_state \<Rightarrow> page_state \<times> effect list" where
  "onClick (setActiveTab t) s = (s\<lparr>activeTab := t\<rparr>, [])"
| "onClick window_location_reload s = (s, [LocationReload])"

text \<open>A click is possible on a button of the rendered page; a page whose render threw
  shows nothing.\<close>

definition click :: "action \<Rightarrow> page_state \<Rightarrow> (page_state \<times> effect list) option" where
  "click a s =
     (case render s of
        Inl e \<Rightarrow> None
      | Inr v \<Rightarrow> if a \<in> snd ` set (buttons v) then Some (onClick a s) else None)"

fun clicks :: "action list \<Rightarrow> page_state \<Rightarrow> (page_state \<times> effect list) option" where
  "clicks [] s = Some (s, [])"
| "clicks (a # as) s =
     (case click a s of
        None \<Rightarrow> None
      | Some (s', effects) \<Rightarrow>
          (case clicks as s' of
             None \<Rightarrow> None
           | Some (s'', effects') \<Rightarrow> Some (s'', effects @ effects')))"

section \<open>The sidebar\<close>

text \<open>
  The filter state, which is also the argument of \<^verbatim>\<open>onFilterChange\<close>. The object
  \<open>parameters\<close> is the list of its properties in insertion order, the order in which
  keys that are names are enumerated.
\<close>

record filters =
  parameters :: "(string \<times> bool) list"
  time :: string
  depth :: string

definition Sidebar_initial :: filters where
  "Sidebar_initial =
     \<lparr>parameters = [(''temperature'', False), (''salinity'', False), (''chlorophyll'', False)],
      time = ''last7days'', depth = ''surface''\<rparr>"

text \<open>\<^verbatim>\<open>{ ...obj, [key]: b }\<close>: a key of \<open>obj\<close> keeps its place, a new key goes to the
  end.\<close>

fun spread_with :: "(string \<times> bool) list \<Rightarrow> string \<Rightarrow> bool \<Rightarrow> (string \<times> bool) list" where
  "spread_with [] key b = [(key, b)]"
| "spread_with (p # ps) key b =
     (if fst p = key then (key, b) # ps else p # spread_with ps key b)"

text \<open>\<^verbatim>\<open>!obj[key]\<close>: a key that is not there reads \<^verbatim>\<open>undefined\<close>, which negates to
  true.\<close>

definition not_property :: "(string \<times> bool) list \<Rightarrow> string \<Rightarrow> bool" where
  "not_property obj key = (case map_of obj key of None \<Rightarrow> True | Some b \<Rightarrow> \<not> b)"

text \<open>Each handler returns the new state and the calls of \<^verbatim>\<open>onFilterChange\<close> it
  made, with their arguments.\<close>

definition toggleParameter :: "string \<Rightarrow> filters \<Rightarrow> filters \<times> filters list" where
  "toggleParameter key s =
     (let newParams = spread_with (parameters s) key (not_property (parameters s) key) in
      (s\<lparr>parameters := newParams\<rparr>,
       [\<lparr>parameters = newParams, time = time s, depth = depth s\<rparr>]))"

definition changeTime :: "string \<Rightarrow> filters \<Rightarrow> filters \<times> filters list" where
  "changeTime target_value s =
     (s\<lparr>time := target_value\<rparr>,
      [\<lparr>parameters = parameters s, time = target_value, depth = depth s\<rparr>])"

definition changeDepth :: "string \<Rightarrow> filters \<Rightarrow> filters \<times> filters list" where
  "changeDepth target_value s =
     (s\<lparr>depth := target_value\<rparr>,
      [\<lparr>parameters = parameters s, time = time s, depth = target_value\<rparr>])"

section \<open>The home page\<close>

text \<open>
  Numbers are modelled by their real values. \<open>Number_toFixed d x\<close> is
  \<^verbatim>\<open>Number(x.toFixed(d))\<close>: below \<open>10\<^sup>2\<^sup>1\<close> the decimal with \<open>d\<close> digits nearest to
  \<open>x\<close>, a tie going away from zero; from there on the digits of \<open>x\<close> itself. The
  rounding of double arithmetic is not modelled: where a sum of doubles falls just beside
  a tie that the real sum hits, as for 7 and 0.05, the code and this function round to
  different neighbours. The range of the score is decided by \<^verbatim>\<open>Math.max\<close> and
  \<^verbatim>\<open>Math.min\<close>, which are exact.
\<close>

definition Number_toFixed :: "nat \<Rightarrow> real \<Rightarrow> real" where
  "Number_toFixed d x =
     (if 10 ^ 21 \<le> \<bar>x\<bar> then x
      else sgn x * real_of_int \<lfloor>\<bar>x\<bar> * 10 ^ d + 1 / 2\<rfloor> / 10 ^ d)"

text \<open>The value that the state updater returns for the previous score and the change.\<close>

definition oceanHealth_next :: "real \<Rightarrow> real \<Rightarrow> real" where
  "oceanHealth_next prev change = max 7.0 (min 9.0 (Number_toFixed 1 (prev + change)))"

text \<open>The updater of one tick of the interval; \<open>random\<close> is what \<^verbatim>\<open>Math.random()\<close>
  returns.\<close>

definition oceanHealth_updater :: "real \<Rightarrow> real \<Rightarrow> real" where
  "oceanHealth_updater random prev =
     (let change = (random - 0.5) * 0.2 in oceanHealth_next prev change)"

section \<open>The response contract\<close>

text \<open>
  The statistical summary as the specification describes it: an object with a nested
  biodiversity summary and ocean conditions summary and a list of correlation insights,
  each with species, variable, correlation and p-value. The other parts of the contract
  are the fields of \<open>CrossDomainAnalysis\<close>.
\<close>

definition spec_is_object :: "jsval \<Rightarrow> bool" where
  "spec_is_object v = (case v of JObj kvs \<Rightarrow> True | _ \<Rightarrow> False)"

definition spec_correlation_insight :: "jsval \<Rightarrow> bool" where
  "spec_correlation_insight v =
     (case v of
        JObj kvs \<Rightarrow>
          list_all (\<lambda>k. map_of kvs k \<noteq> None)
            [''species'', ''variable'', ''correlation'', ''p_value'']
      | _ \<Rightarrow> False)"

definition spec_statistical_summary :: "jsval \<Rightarrow> bool" where
  "spec_statistical_summary v =
     (case v of
        JObj kvs \<Rightarrow>
          (case map_of kvs ''biodiversity_summary'' of
             Some b \<Rightarrow> spec_is_object b | None \<Rightarrow> False)
          \<and> (case map_of kvs ''ocean_conditions_summary'' of
               Some c \<Rightarrow> spec_is_object c | None \<Rightarrow> False)
          \<and> (case map_of kvs ''correlation_insights'' of
               Some (JArr xs) \<Rightarrow> list_all spec_correlation_insight xs | _ \<Rightarrow> False)
      | _ \<Rightarrow> False)"

text \<open>
  What the statistics tab needs of the summary beyond that: the numbers it formats with
  \<^verbatim>\<open>toFixed\<close> (the mean of the abundance statistics; mean, min, max and std of every
  ocean variable; correlation and p-value of every insight), and no plain object among the
  values it shows as they are (total species, total observations, the maximal abundance,
  every unit, species and variable).
\<close>

definition numeric_fields :: "jsval \<Rightarrow> string list \<Rightarrow> bool" where
  "numeric_fields v ks =
     (case v of
        JObj kvs \<Rightarrow>
          list_all (\<lambda>k. case map_of kvs k of Some (JNum x) \<Rightarrow> True | _ \<Rightarrow> False) ks
      | _ \<Rightarrow> False)"

definition shown_fields :: "jsval \<Rightarrow> string list \<Rightarrow> bool" where
  "shown_fields v ks =
     (case v of
        JObj kvs \<Rightarrow>
          list_all (\<lambda>k. case map_of kvs k of None \<Rightarrow> True | Some x \<Rightarrow> valid_child x) ks
      | _ \<Rightarrow> False)"

definition tab_biodiversity_summary :: "jsval \<Rightarrow> bool" where
  "tab_biodiversity_summary v =
     (case v of
        JObj b \<Rightarrow>
          shown_fields v [''total_species'', ''total_observations''] \<and>
          (case map_of b ''abundance_stats'' of
             Some a \<Rightarrow> numeric_fields a [''mean''] \<and> shown_fields a [''max'']
           | None \<Rightarrow> False)
      | _ \<Rightarrow> False)"

definition tab_ocean_row :: "string \<times> jsval \<Rightarrow> bool" where
  "tab_ocean_row row =
     (numeric_fields (snd row) [''mean'', ''min'', ''max'', ''std''] \<and>
      shown_fields (snd row) [''unit''])"

definition tab_ocean_conditions_summary :: "jsval \<Rightarrow> bool" where
  "tab_ocean_conditions_summary v =
     (case v of JObj rows \<Rightarrow> list_all tab_ocean_row rows | _ \<Rightarrow> False)"

definition tab_correlation_insight :: "jsval \<Rightarrow> bool" where
  "tab_correlation_insight x =
     (numeric_fields x [''correlation'', ''p_value''] \<and>
      shown_fields x [''species'', ''variable''])"

definition tab_correlation_insights :: "jsval \<Rightarrow> bool" where
  "tab_correlation_insights v =
     (case v of JArr xs \<Rightarrow> list_all tab_correlation_insight xs | _ \<Rightarrow> False)"

definition tab_statistical_summary :: "jsval \<Rightarrow> bool" where
  "tab_statistical_summary v =
     (case v of
        JObj kvs \<Rightarrow>
          (case map_of kvs ''biodiversity_summary'' of
             Some b \<Rightarrow> tab_biodiversity_summary b | None \<Rightarrow> False)
          \<and> (case map_of kvs ''ocean_conditions_summary'' of
               Some c \<Rightarrow> tab_ocean_conditions_summary c | None \<Rightarrow> False)
          \<and> (case map_of kvs ''correlation_insights'' of
               Some i \<Rightarrow> tab_correlation_insights i | None \<Rightarrow> False)
      | _ \<Rightarrow> False)"

section \<open>An example response\<close>

text \<open>
  A response with everything the page reads, and the page after it has arrived; the
  theorems below are exercised on it.
\<close>

definition example_summary :: jsval where
  "example_summary =
     JObj [(''biodiversity_summary'',
              JObj [(''total_species'', JNum 42), (''total_observations'', JNum 1000),
                    (''abundance_stats'', JObj [(''mean'', JNum 2.5), (''max'', JNum 9)])]),
           (''ocean_conditions_summary'',
              JObj [(''temperature'',
                       JObj [(''mean'', JNum 27), (''min'', JNum 20), (''max'', JNum 30),
                             (''std'', JNum 1.5), (''unit'', JStr ''C'')])]),
           (''correlation_insights'',
              JArr [JObj [(''species'', JStr ''Tuna''), (''variable'', JStr ''temperature''),
                          (''correlation'', JNum 0.5), (''p_value'', JNum 0.01)]])]"

definition example_analysis :: CrossDomainAnalysis where
  "example_analysis =
     \<lparr>visualizations =
        \<lparr>correlation_heatmap = JNull, scatter_matrix = JNull, species_environment = JNull,
         environmental_gradients = JNull, biodiversity_hotspots = JNull,
         statistical_summary = example_summary\<rparr>,
      metadata =
        \<lparr>analysis_type = ''cross_domain'', biodiversity_species = 42,
         biodiversity_points = 1000, ocean_variables = [''temperature''],
         region = ''Indian Ocean''\<rparr>\<rparr>"

text \<open>A summary with the fields that the specification names and no others, and the
  page that shows it on the statistics tab.\<close>

definition bare_summary :: jsval where
  "bare_summary =
     JObj [(''biodiversity_summary'', JObj [(''total_species'', JNum 42)]),
           (''ocean_conditions_summary'', JObj []),
           (''correlation_insights'',
              JArr [JObj [(''species'', JStr ''Tuna''), (''variable'', JStr ''temperature''),
                          (''correlation'', JNum 0.5), (''p_value'', JNum 0.01)]])]"

definition bare_analysis :: CrossDomainAnalysis where
  "bare_analysis =
     \<lparr>visualizations =
        \<lparr>correlation_heatmap = JNull, scatter_matrix = JNull, species_environment = JNull,
         environmental_gradients = JNull, biodiversity_hotspots = JNull,
         statistical_summary = bare_summary\<rparr>,
      metadata =
        \<lparr>analysis_type = ''cross_domain'', biodiversity_species = 42,
         biodiversity_points = 1000, ocean_variables = [''temperature''],
         region = ''Indian Ocean''\<rparr>\<rparr>"

definition bare_page :: page_state where
  "bare_page =
     \<lparr>crossDomainData = Some bare_analysis, loading = False, error = None,
      activeTab = statistics\<rparr>"

text \<open>The example response with an object where the total number of species should be.\<close>

definition object_summary :: jsval where
  "object_summary =
     JObj [(''biodiversity_summary'',
              JObj [(''total_species'', JObj [(''a'', JStr ''x'')]),
                    (''total_observations'', JNum 1000),
                    (''abundance_stats'', JObj [(''mean'', JNum 2.5), (''max'', JNum 9)])]),
           (''ocean_conditions_summary'',
              JObj [(''temperature'',
                       JObj [(''mean'', JNum 27), (''min'', JNum 20), (''max'', JNum 30),
                             (''std'', JNum 1.5), (''unit'', JStr ''C'')])]),
           (''correlation_insights'',
              JArr [JObj [(''species'', JStr ''Tuna''), (''variable'', JStr ''temperature''),
                          (''correlation'', JNum 0.5), (''p_value'', JNum 0.01)]])]"

definition object_page :: page_state where
  "object_page =
     \<lparr>crossDomainData =
        Some (example_analysis\<lparr>visualizations :=
                (visualizations example_analysis)\<lparr>statistical_summary := object_summary\<rparr>\<rparr>),
      loading = False, error = None, activeTab = statistics\<rparr>"

definition example_loaded :: page_state where
  "example_loaded =
     loadCrossDomainAnalysis_settled
       (Resolved \<lparr>ok = True, status = 200, json = Inr example_analysis\<rparr>) (fst mount)"

section \<open>Properties of the chat widget\<close>

text \<open>
  C2: a submission with an uploaded image is answered with the fixed anglerfish paragraph,
  as it is, whatever the typed query: \<open>generateResponse\<close> returns the paragraph when it
  is told that there is an image, and the assistant message that \<open>handleSubmit\<close> appends
  for a state with an image has the paragraph as its content.
\<close>

theorem generateResponse_image:
  "generateResponse query True = anglerFishResponse \<and>
   (truthy_string (uploadedImage s) \<longrightarrow>
      content (last (messages (handleSubmit now1 date1 now2 date2 s))) = anglerFishResponse)"
  by (simp add: generateResponse_def handleSubmit_def handleSubmit_before_await_def
      handleSubmit_after_await_def Let_def)

theorem generateResponse_image_witness:
  "truthy_string (uploadedImage
      \<lparr>input = ''what is this?'', messages = [], isLoading = False,
       uploadedImage = Some ''data:image/png;base64,iVBORw0KGgo=''\<rparr>) \<and>
   content (last (messages (handleSubmit 1000 1000 3000 3000
      \<lparr>input = ''what is this?'', messages = [], isLoading = False,
       uploadedImage = Some ''data:image/png;base64,iVBORw0KGgo=''\<rparr>))) = anglerFishResponse"
  using generateResponse_image [of "''what is this?''"
      "\<lparr>input = ''what is this?'', messages = [], isLoading = False,
        uploadedImage = Some ''data:image/png;base64,iVBORw0KGgo=''\<rparr>" 1000 1000 3000 3000]
  by (simp add: truthy_string_def)

subsection \<open>Replacement templates\<close>

text \<open>
  A replacement text without template patterns is inserted as it is, so for a query whose
  lower-case form has no such pattern the response is the one the specification words.
\<close>

lemma GetSubstitution_plain: "plain_template t \<Longrightarrow> GetSubstitution m pre post t = t"
  by (induction t rule: plain_template.induct) auto

lemma replace_from_plain:
  "pat \<noteq> [] \<Longrightarrow> plain_template repl \<Longrightarrow> replace_from pat repl pre s = spec_replace_every s pat repl"
  by (induction pat repl pre s rule: replace_from.induct) (simp_all add: GetSubstitution_plain)

lemma plain_template_The: "plain_template l \<Longrightarrow> plain_template (''The '' @ l)"
  by (cases l) simp_all

lemma generateResponse_plain:
  assumes "plain_template (toLowerCase q)"
  shows "generateResponse q False = spec_response q"
proof -
  have a: "replace_from ''fish in the image'' (toLowerCase q) [] s
             = spec_replace_every s ''fish in the image'' (toLowerCase q)" for s
    by (rule replace_from_plain [OF _ assms]) simp
  have b: "replace_from ''anglerfish'' (toLowerCase q) [] s
             = spec_replace_every s ''anglerfish'' (toLowerCase q)" for s
    by (rule replace_from_plain [OF _ assms]) simp
  have c: "replace_from ''The fish'' (''The '' @ toLowerCase q) [] s
             = spec_replace_every s ''The fish'' (''The '' @ toLowerCase q)" for s
    by (rule replace_from_plain [OF _ plain_template_The [OF assms]]) simp
  have d: "replace_from ''deep-sea anglerfish'' (toLowerCase q) [] s
             = spec_replace_every s ''deep-sea anglerfish'' (toLowerCase q)" for s
    by (rule replace_from_plain [OF _ assms]) simp
  show ?thesis
    by (simp only: generateResponse_def spec_response_def replace_global_def Let_def
        if_False a b c d)
qed

text \<open>
  The paragraph begins with \<^verbatim>\<open>The fish in the image is a \<close>. No match of a pattern
  starts in these 27 characters and ends behind them, so what follows them is not needed
  to see what becomes of them.
\<close>

lemma anglerFishResponse_start:
  "anglerFishResponse = ''The fish in the image is a '' @ drop 27 anglerFishResponse"
proof -
  have "take 27 anglerFishResponse = ''The fish in the image is a ''"
    by (simp add: anglerFishResponse_def)
  then show ?thesis
    using append_take_drop_id [of 27 anglerFishResponse] by (simp only:)
qed

lemma toLowerCase_dollar_ampersand: "toLowerCase ''$&'' = ''$&''"
  by (simp add: toLowerCase_def toLowerCase_char_def)

text \<open>
  C3: a text-only submission is answered with the paragraph in which, in this order,
  \<^verbatim>\<open>fish in the image\<close>, \<^verbatim>\<open>anglerfish\<close>, \<^verbatim>\<open>The fish\<close> (by \<^verbatim>\<open>The \<close> and the
  name) and \<^verbatim>\<open>deep-sea anglerfish\<close> are replaced by the lower-case query. For the query
  \<^verbatim>\<open>$&\<close> the program does not do that: the query is read as the template for the
  matched text, so the response begins \<^verbatim>\<open>The The fish\<close>, where the replacement of the
  specification begins \<^verbatim>\<open>The $& is a \<close>.
\<close>

theorem generateResponse_template_pattern:
  "take 12 (generateResponse ''$&'' False) = ''The The fish'' \<and>
   take 12 (spec_response ''$&'') = ''The $& is a '' \<and>
   generateResponse ''$&'' False \<noteq> spec_response ''$&''"
proof -
  define rest where "rest = drop 27 anglerFishResponse"
  have split: "anglerFishResponse = ''The fish in the image is a '' @ rest"
    unfolding rest_def by (rule anglerFishResponse_start)
  have code: "take 12 (generateResponse ''$&'' False) = ''The The fish''"
    unfolding generateResponse_def replace_global_def Let_def toLowerCase_dollar_ampersand
    by (simp only: if_False split) simp
  have spec: "take 12 (spec_response ''$&'') = ''The $& is a ''"
    unfolding spec_response_def toLowerCase_dollar_ampersand
    by (simp only: split) simp
  have "take 12 (generateResponse ''$&'' False) \<noteq> take 12 (spec_response ''$&'')"
    unfolding code spec by simp
  then have "generateResponse ''$&'' False \<noteq> spec_response ''$&''" by auto
  with code spec show ?thesis by simp
qed

text \<open>
  C9: a submission with nothing but white space typed and no image leaves the messages
  as they are. Every other submission appends two messages, one of the user and then one
  of the assistant, behind the messages that were there. Each of the two parts of the
  handler only appends, whatever state it starts from.
\<close>

theorem handleSubmit_append_only:
  "(trim (input s) = [] \<and> \<not> truthy_string (uploadedImage s) \<longrightarrow>
      messages (handleSubmit now1 date1 now2 date2 s) = messages s) \<and>
   (\<not> (trim (input s) = [] \<and> \<not> truthy_string (uploadedImage s)) \<longrightarrow>
      (\<exists>u a. messages (handleSubmit now1 date1 now2 date2 s) = messages s @ [u, a] \<and>
             type' u = user \<and> type' a = assistant)) \<and>
   (\<exists>ms. messages (fst (handleSubmit_before_await now1 date1 s)) = messages s @ ms) \<and>
   (\<exists>a. messages (handleSubmit_after_await now2 date2 locals s) = messages s @ [a] \<and>
        type' a = assistant)"
  by (simp add: handleSubmit_def handleSubmit_before_await_def
      handleSubmit_after_await_def Let_def)

theorem handleSubmit_append_only_witness:
  "(trim (input \<lparr>input = ''  '', messages = [], isLoading = False, uploadedImage = None\<rparr>) = [] \<and>
    \<not> truthy_string
        (uploadedImage \<lparr>input = ''  '', messages = [], isLoading = False, uploadedImage = None\<rparr>) \<and>
    messages (handleSubmit 1000 1000 3000 3000
      \<lparr>input = ''  '', messages = [], isLoading = False, uploadedImage = None\<rparr>) = []) \<and>
   (\<not> (trim (input \<lparr>input = ''Tuna'', messages = [], isLoading = False, uploadedImage = None\<rparr>) = [] \<and>
        \<not> truthy_string
            (uploadedImage \<lparr>input = ''Tuna'', messages = [], isLoading = False, uploadedImage = None\<rparr>)) \<and>
    (\<exists>u a. messages (handleSubmit 1000 1000 3000 3000
        \<lparr>input = ''Tuna'', messages = [], isLoading = False, uploadedImage = None\<rparr>) = [] @ [u, a] \<and>
        type' u = user \<and> type' a = assistant))"
  using
    handleSubmit_append_only [of
      "\<lparr>input = ''  '', messages = [], isLoading = False, uploadedImage = None\<rparr>"
      1000 1000 3000 3000]
    handleSubmit_append_only [of
      "\<lparr>input = ''Tuna'', messages = [], isLoading = False, uploadedImage = None\<rparr>"
      1000 1000 3000 3000]
  by (simp add: trim_def isWhiteSpace_def truthy_string_def)

section \<open>Properties of the analysis page\<close>

lemma request_url: "snd mount = [HttpGet ''http://localhost:5000/api/cross-domain-analysis'']"
  by (simp add: mount_def loadCrossDomainAnalysis_request_def API_BASE_URL_def)

text \<open>
  C1, amended: a response whose \<^verbatim>\<open>ok\<close> flag is false puts the page into the error
  state, not loading and with the data untouched. The message is the one about the backend
  server exactly when the status is 0 or at least 500; for every other status it is
  \<^verbatim>\<open>Failed to load cross-domain analysis data\<close>.
\<close>

theorem not_ok_error_state:
  "\<not> ok r \<Longrightarrow>
     error (loadCrossDomainAnalysis_settled (Resolved r) s) =
       Some (if status r = 0 \<or> 500 \<le> status r
             then ''Backend server is not running. Please start it with: python app.py''
             else ''Failed to load cross-domain analysis data'') \<and>
     \<not> loading (loadCrossDomainAnalysis_settled (Resolved r) s) \<and>
     crossDomainData (loadCrossDomainAnalysis_settled (Resolved r) s) = crossDomainData s \<and>
     render (loadCrossDomainAnalysis_settled (Resolved r) s) =
       Inr (ErrorView
              (if status r = 0 \<or> 500 \<le> status r
               then ''Backend server is not running. Please start it with: python app.py''
               else ''Failed to load cross-domain analysis data'')
              [(''Retry'', window_location_reload)])"
  by (simp add: loadCrossDomainAnalysis_settled_def try_block_def render_def truthy_string_def)

theorem not_ok_error_state_witness:
  "\<not> ok \<lparr>ok = False, status = 503, json = Inl []\<rparr> \<and>
   error (loadCrossDomainAnalysis_settled
            (Resolved \<lparr>ok = False, status = 503, json = Inl []\<rparr>) (fst mount))
     = Some ''Backend server is not running. Please start it with: python app.py'' \<and>
   render (loadCrossDomainAnalysis_settled
            (Resolved \<lparr>ok = False, status = 503, json = Inl []\<rparr>) (fst mount))
     = Inr (ErrorView ''Backend server is not running. Please start it with: python app.py''
              [(''Retry'', window_location_reload)])"
  using not_ok_error_state [of "\<lparr>ok = False, status = 503, json = Inl []\<rparr>" "fst mount"]
  by simp

text \<open>
  A response with status 404 has a false \<^verbatim>\<open>ok\<close> flag and does not produce the
  message about the backend server.
\<close>

theorem not_ok_404_counterexample:
  "\<not> ok \<lparr>ok = False, status = 404, json = Inl []\<rparr> \<and>
   error (loadCrossDomainAnalysis_settled
            (Resolved \<lparr>ok = False, status = 404, json = Inl []\<rparr>) (fst mount))
     \<noteq> Some ''Backend server is not running. Please start it with: python app.py''"
  by (simp add: loadCrossDomainAnalysis_settled_def try_block_def)

subsection \<open>Clicks on the loaded page\<close>

lemma render_page:
  "\<not> loading s \<Longrightarrow> \<not> truthy_string (error s) \<Longrightarrow> render s = Inr v \<Longrightarrow> buttons v = tab_buttons"
  by (auto simp: render_def bind_error_def split: sum.splits if_splits)

lemma tab_button_each: "setActiveTab t \<in> snd ` set tab_buttons"
  by (cases t) (simp_all add: tab_buttons_def)

lemma click_page:
  assumes "\<not> loading s" "\<not> truthy_string (error s)" "click a s = Some (s', effects)"
  shows "\<exists>t. a = setActiveTab t \<and> s' = s\<lparr>activeTab := t\<rparr> \<and> effects = []"
proof -
  from assms(3) obtain v where v: "render s = Inr v" and a: "a \<in> snd ` set (buttons v)"
    and r: "onClick a s = (s', effects)"
    by (auto simp: click_def split: sum.splits if_splits)
  from render_page [OF assms(1,2) v] a have "a \<in> snd ` set tab_buttons" by simp
  then obtain t where "a = setActiveTab t" by (auto simp: tab_buttons_def)
  with r show ?thesis by auto
qed

lemma clicks_page:
  "\<not> loading s \<Longrightarrow> \<not> truthy_string (error s) \<Longrightarrow> clicks acts s = Some (s', effects) \<Longrightarrow>
   \<exists>ts. acts = map setActiveTab ts \<and> s' = s\<lparr>activeTab := last (activeTab s # ts)\<rparr> \<and> effects = []"
proof (induction acts arbitrary: s s' effects)
  case Nil
  then show ?case by simp
next
  case (Cons a acts)
  from Cons.prems(3) obtain s1 e1 s2 e2 where c: "click a s = Some (s1, e1)"
    and cs: "clicks acts s1 = Some (s2, e2)" and res: "s' = s2" "effects = e1 @ e2"
    by (auto split: option.splits)
  from click_page [OF Cons.prems(1,2) c] obtain t where t: "a = setActiveTab t"
    "s1 = s\<lparr>activeTab := t\<rparr>" "e1 = []" by blast
  have "\<not> loading s1" "\<not> truthy_string (error s1)" using Cons.prems(1,2) t by simp_all
  from Cons.IH [OF this cs] obtain ts where ts: "acts = map setActiveTab ts"
    "s2 = s1\<lparr>activeTab := last (activeTab s1 # ts)\<rparr>" "e2 = []" by blast
  have "a # acts = map setActiveTab (t # ts)" using t ts by simp
  moreover have "s' = s\<lparr>activeTab := last (activeTab s # t # ts)\<rparr>" using res t ts by simp
  moreover have "effects = []" using res t ts by simp
  ultimately show ?case by (intro exI [where x = "t # ts"]) simp
qed

text \<open>
  C4: a page load issues one GET, at mount. Once the data is there (the page is neither
  loading nor in the error state), every sequence of clicks that the page allows consists
  of tab selections; it leaves the data, the loading flag and the error as they are,
  issues no request and no reload, and changes only the active tab. Each of the five tabs
  can be selected on a page that renders.
\<close>

theorem fetch_once_data_kept:
  "snd mount = [HttpGet ''http://localhost:5000/api/cross-domain-analysis''] \<and>
   (crossDomainData s = Some d \<and> \<not> loading s \<and> \<not> truthy_string (error s) \<and>
    clicks acts s = Some (s', effects) \<longrightarrow>
      crossDomainData s' = Some d \<and> loading s' = loading s \<and> error s' = error s \<and>
      effects = [] \<and>
      (\<exists>ts. acts = map setActiveTab ts \<and> activeTab s' = last (activeTab s # ts))) \<and>
   (\<not> loading s \<and> \<not> truthy_string (error s) \<and> render s = Inr v \<longrightarrow>
      click (setActiveTab t) s = Some (s\<lparr>activeTab := t\<rparr>, []))"
proof (intro conjI impI)
  show "snd mount = [HttpGet ''http://localhost:5000/api/cross-domain-analysis'']"
    by (rule request_url)
next
  assume h: "crossDomainData s = Some d \<and> \<not> loading s \<and> \<not> truthy_string (error s) \<and>
    clicks acts s = Some (s', effects)"
  then obtain ts where ts: "acts = map setActiveTab ts"
    "s' = s\<lparr>activeTab := last (activeTab s # ts)\<rparr>" "effects = []"
    using clicks_page by blast
  show "crossDomainData s' = Some d" using h ts by simp
  show "loading s' = loading s" using ts by simp
  show "error s' = error s" using ts by simp
  show "effects = []" using ts by simp
  show "\<exists>ts. acts = map setActiveTab ts \<and> activeTab s' = last (activeTab s # ts)"
    using ts by auto
next
  assume "\<not> loading s \<and> \<not> truthy_string (error s) \<and> render s = Inr v"
  then show "click (setActiveTab t) s = Some (s\<lparr>activeTab := t\<rparr>, [])"
    using render_page [of s v] tab_button_each [of t] by (simp add: click_def)
qed

text \<open>
  C6: the request of the page is a GET of
  \<^verbatim>\<open>http://localhost:5000/api/cross-domain-analysis\<close>, and the body of a response with
  a true \<^verbatim>\<open>ok\<close> flag becomes the data of the page, at type \<open>CrossDomainAnalysis\<close>.
\<close>

theorem request_and_body:
  "snd mount = [HttpGet ''http://localhost:5000/api/cross-domain-analysis''] \<and>
   (ok r \<and> json r = Inr d \<longrightarrow>
      crossDomainData (loadCrossDomainAnalysis_settled (Resolved r) s) = Some d \<and>
      error (loadCrossDomainAnalysis_settled (Resolved r) s) = error s \<and>
      \<not> loading (loadCrossDomainAnalysis_settled (Resolved r) s))"
  by (simp add: request_url loadCrossDomainAnalysis_settled_def try_block_def)

text \<open>
  C7: in the error state the page shows the error message and one button, Retry. Its
  handler reloads the document and leaves the state of the component alone; no other
  click is possible there, and nothing fetches again in place.
\<close>

theorem error_state_retry:
  "\<not> loading s \<Longrightarrow> truthy_string (error s) \<Longrightarrow>
     (\<exists>message. error s = Some message \<and>
        render s = Inr (ErrorView message [(''Retry'', window_location_reload)])) \<and>
     onClick window_location_reload s = (s, [LocationReload]) \<and>
     (\<forall>a r. click a s = Some r \<longrightarrow> a = window_location_reload \<and> r = (s, [LocationReload]))"
  by (auto simp: render_def truthy_string_def click_def split: option.splits if_splits)

theorem error_state_retry_witness:
  "\<not> loading \<lparr>crossDomainData = None, loading = False, error = Some ''Failed to fetch'',
               activeTab = overview\<rparr> \<and>
   truthy_string (error \<lparr>crossDomainData = None, loading = False,
                         error = Some ''Failed to fetch'', activeTab = overview\<rparr>) \<and>
   render \<lparr>crossDomainData = None, loading = False, error = Some ''Failed to fetch'',
           activeTab = overview\<rparr>
     = Inr (ErrorView ''Failed to fetch'' [(''Retry'', window_location_reload)]) \<and>
   click window_location_reload
      \<lparr>crossDomainData = None, loading = False, error = Some ''Failed to fetch'',
       activeTab = overview\<rparr>
     = Some (\<lparr>crossDomainData = None, loading = False, error = Some ''Failed to fetch'',
              activeTab = overview\<rparr>, [LocationReload]) \<and>
   click (setActiveTab statistics)
      \<lparr>crossDomainData = None, loading = False, error = Some ''Failed to fetch'',
       activeTab = overview\<rparr> = None"
proof -
  let ?s = "\<lparr>crossDomainData = None, loading = False, error = Some ''Failed to fetch'',
             activeTab = overview\<rparr>"
  have h1: "\<not> loading ?s" by simp
  have h2: "truthy_string (error ?s)" by (simp add: truthy_string_def)
  from error_state_retry [OF h1 h2]
  have r: "render ?s = Inr (ErrorView ''Failed to fetch'' [(''Retry'', window_location_reload)])"
    and only: "\<forall>a r. click a ?s = Some r \<longrightarrow> a = window_location_reload \<and> r = (?s, [LocationReload])"
    by auto
  have c: "click window_location_reload ?s = Some (?s, [LocationReload])"
    by (simp add: click_def r)
  have n: "click (setActiveTab statistics) ?s = None"
    using only by (cases "click (setActiveTab statistics) ?s") auto
  from h1 h2 r c n show ?thesis by simp
qed

subsection \<open>The statistics tab\<close>

lemma numeric_fields_JObj:
  "numeric_fields v ks \<Longrightarrow> \<exists>kvs. v = JObj kvs"
  by (cases v) (simp_all add: numeric_fields_def)

lemma numeric_fields_get:
  assumes "numeric_fields v ks" and "k \<in> set ks"
  shows "\<exists>x. get v k = Inr (JNum x)"
proof -
  from assms(1) obtain kvs where v: "v = JObj kvs"
    and every: "list_all (\<lambda>k. case map_of kvs k of Some (JNum x) \<Rightarrow> True | _ \<Rightarrow> False) ks"
    by (cases v) (simp_all add: numeric_fields_def)
  from every assms(2) have "case map_of kvs k of Some (JNum x) \<Rightarrow> True | _ \<Rightarrow> False"
    by (simp add: list_all_iff)
  then obtain x where "map_of kvs k = Some (JNum x)"
    by (auto split: option.splits jsval.splits)
  then show ?thesis using v by simp
qed

lemma shown_fields_get:
  assumes "shown_fields v ks" and "k \<in> set ks"
  shows "\<exists>u. get v k = Inr u \<and> valid_child u"
proof -
  from assms(1) obtain kvs where v: "v = JObj kvs"
    and every: "list_all (\<lambda>k. case map_of kvs k of None \<Rightarrow> True | Some x \<Rightarrow> valid_child x) ks"
    by (cases v) (simp_all add: shown_fields_def)
  from every assms(2) have "case map_of kvs k of None \<Rightarrow> True | Some x \<Rightarrow> valid_child x"
    by (simp add: list_all_iff)
  then show ?thesis using v by (cases "map_of kvs k") simp_all
qed

lemma ocean_conditions_row_total:
  assumes "tab_ocean_row row"
  shows "\<exists>cells. ocean_conditions_row row = Inr cells \<and> accepted_ocean cells"
proof -
  from assms have num: "numeric_fields (snd row) [''mean'', ''min'', ''max'', ''std'']"
    and shown: "shown_fields (snd row) [''unit'']"
    by (simp_all add: tab_ocean_row_def)
  obtain m where m: "get (snd row) ''mean'' = Inr (JNum m)"
    using numeric_fields_get [OF num, of "''mean''"] by auto
  obtain mn where mn: "get (snd row) ''min'' = Inr (JNum mn)"
    using numeric_fields_get [OF num, of "''min''"] by auto
  obtain mx where mx: "get (snd row) ''max'' = Inr (JNum mx)"
    using numeric_fields_get [OF num, of "''max''"] by auto
  obtain sd where sd: "get (snd row) ''std'' = Inr (JNum sd)"
    using numeric_fields_get [OF num, of "''std''"] by auto
  obtain u where u: "get (snd row) ''unit'' = Inr u" "valid_child u"
    using shown_fields_get [OF shown, of "''unit''"] by auto
  show ?thesis
    by (simp add: ocean_conditions_row_def Let_def bind_error_def m mn mx sd u
        accepted_ocean_def)
qed

lemma ocean_conditions_rows_total:
  "list_all tab_ocean_row rows \<Longrightarrow>
   \<exists>cells. traverse ocean_conditions_row rows = Inr cells \<and> list_all accepted_ocean cells"
proof (induction rows)
  case Nil
  then show ?case by simp
next
  case (Cons row rows)
  then obtain c cs where "ocean_conditions_row row = Inr c" "accepted_ocean c"
    "traverse ocean_conditions_row rows = Inr cs" "list_all accepted_ocean cs"
    using ocean_conditions_row_total [of row] by auto
  then show ?case by (simp add: bind_error_def)
qed

lemma correlation_insight_row_total:
  assumes "tab_correlation_insight x"
  shows "\<exists>cells. correlation_insight_row x = Inr cells \<and> accepted_insight cells"
proof -
  from assms have num: "numeric_fields x [''correlation'', ''p_value'']"
    and shown: "shown_fields x [''species'', ''variable'']"
    by (simp_all add: tab_correlation_insight_def)
  obtain c where c: "get x ''correlation'' = Inr (JNum c)"
    using numeric_fields_get [OF num, of "''correlation''"] by auto
  obtain p where p: "get x ''p_value'' = Inr (JNum p)"
    using numeric_fields_get [OF num, of "''p_value''"] by auto
  obtain sp where sp: "get x ''species'' = Inr sp" "valid_child sp"
    using shown_fields_get [OF shown, of "''species''"] by auto
  obtain var where var: "get x ''variable'' = Inr var" "valid_child var"
    using shown_fields_get [OF shown, of "''variable''"] by auto
  show ?thesis
    by (simp add: correlation_insight_row_def bind_error_def c p sp var accepted_insight_def)
qed

lemma correlation_insight_rows_total:
  "list_all tab_correlation_insight xs \<Longrightarrow>
   \<exists>cells. traverse correlation_insight_row xs = Inr cells \<and> list_all accepted_insight cells"
proof (induction xs)
  case Nil
  then show ?case by simp
next
  case (Cons x xs)
  then obtain c cs where "correlation_insight_row x = Inr c" "accepted_insight c"
    "traverse correlation_insight_row xs = Inr cs" "list_all accepted_insight cs"
    using correlation_insight_row_total [of x] by auto
  then show ?case by (simp add: bind_error_def)
qed

lemma significant_correlations_block_total:
  assumes "tab_correlation_insights v"
  shows "\<exists>table. significant_correlations_block v = Inr table \<and>
           accepted_guarded (list_all accepted_insight) table"
proof -
  from assms obtain xs where xs: "v = JArr xs" and rows: "list_all tab_correlation_insight xs"
    by (cases v) (simp_all add: tab_correlation_insights_def)
  from correlation_insight_rows_total [OF rows] obtain cells where
    "traverse correlation_insight_row xs = Inr cells" "list_all accepted_insight cells"
    by blast
  then show ?thesis
    by (simp add: significant_correlations_block_def xs bind_error_def)
qed

lemma biodiversity_summary_block_total:
  assumes "tab_biodiversity_summary b" and that: "map_of kvs ''biodiversity_summary'' = Some b"
  shows "\<exists>cells. biodiversity_summary_block (JObj kvs) = Inr cells \<and>
           accepted_biodiversity cells"
proof -
  from assms(1) obtain bs a where bs: "b = JObj bs"
    and shown: "shown_fields b [''total_species'', ''total_observations'']"
    and a: "map_of bs ''abundance_stats'' = Some a"
    and num: "numeric_fields a [''mean'']" and shown_max: "shown_fields a [''max'']"
    by (cases b) (auto simp: tab_biodiversity_summary_def split: option.splits)
  obtain m where m: "get a ''mean'' = Inr (JNum m)"
    using numeric_fields_get [OF num, of "''mean''"] by auto
  obtain mx where mx: "get a ''max'' = Inr mx" "valid_child mx"
    using shown_fields_get [OF shown_max, of "''max''"] by auto
  obtain ts where ts: "get b ''total_species'' = Inr ts" "valid_child ts"
    using shown_fields_get [OF shown, of "''total_species''"] by auto
  obtain obs where obs: "get b ''total_observations'' = Inr obs" "valid_child obs"
    using shown_fields_get [OF shown, of "''total_observations''"] by auto
  have ga: "get b ''abundance_stats'' = Inr a" using bs a by simp
  show ?thesis
    by (simp add: biodiversity_summary_block_def bind_error_def that ts obs ga m mx
        accepted_biodiversity_def)
qed

lemma statistics_block_total:
  assumes "tab_statistical_summary v"
  shows "\<exists>panel. statistics_block v = Inr panel \<and> accepted_panel panel"
proof -
  from assms obtain kvs b c i where v: "v = JObj kvs"
    and b: "map_of kvs ''biodiversity_summary'' = Some b" "tab_biodiversity_summary b"
    and c: "map_of kvs ''ocean_conditions_summary'' = Some c" "tab_ocean_conditions_summary c"
    and i: "map_of kvs ''correlation_insights'' = Some i" "tab_correlation_insights i"
    by (cases v) (auto simp: tab_statistical_summary_def split: option.splits)
  from biodiversity_summary_block_total [OF b(2) b(1)] obtain cells where
    cells: "biodiversity_summary_block (JObj kvs) = Inr cells" "accepted_biodiversity cells"
    by blast
  from c(2) obtain rows where rows: "c = JObj rows" "list_all tab_ocean_row rows"
    by (cases c) (simp_all add: tab_ocean_conditions_summary_def)
  from ocean_conditions_rows_total [OF rows(2)] obtain ocells where
    ocells: "traverse ocean_conditions_row rows = Inr ocells" "list_all accepted_ocean ocells"
    by blast
  from significant_correlations_block_total [OF i(2)] obtain table where
    table: "significant_correlations_block i = Inr table"
    "accepted_guarded (list_all accepted_insight) table" by blast
  have "statistics_block v =
      Inr \<lparr>biodiversity_summary_cells = cells, ocean_conditions_cells = ocells,
           significant_correlations = table\<rparr>"
    by (simp add: statistics_block_def bind_error_def v cells c i rows ocells table)
  then show ?thesis using cells ocells table by (simp add: accepted_panel_def)
qed

text \<open>The cell of a block that was built holds what was read.\<close>

lemma biodiversity_summary_block_cell:
  "biodiversity_summary_block v = Inr cells \<Longrightarrow>
   \<exists>b ts. get v ''biodiversity_summary'' = Inr b \<and> get b ''total_species'' = Inr ts \<and>
          total_species cells = Value ts"
  by (auto simp: biodiversity_summary_block_def bind_error_def split: sum.splits)

lemma statistics_block_cell:
  "statistics_block v = Inr panel \<Longrightarrow>
   \<exists>b ts. get v ''biodiversity_summary'' = Inr b \<and> get b ''total_species'' = Inr ts \<and>
          total_species (biodiversity_summary_cells panel) = Value ts"
proof -
  assume "statistics_block v = Inr panel"
  then obtain cells where "biodiversity_summary_block v = Inr cells"
    "biodiversity_summary_cells panel = cells"
    by (auto simp: statistics_block_def bind_error_def split: sum.splits)
  then show ?thesis using biodiversity_summary_block_cell [of v cells] by simp
qed

lemma render_statistics:
  assumes "\<not> loading s" and "\<not> truthy_string (error s)" and "activeTab s = statistics"
    and "crossDomainData s = Some d" and "truthy (statistical_summary (visualizations d))"
  shows "render s =
     (case statistics_block (statistical_summary (visualizations d)) of
        Inl e \<Rightarrow> Inl e
      | Inr panel \<Rightarrow>
          if accepted_panel panel
          then Inr (PageView (Some (overview_stats_block d)) tab_buttons
                      (Some (StatisticsTab (Shown panel))))
          else Inl InvalidChild)"
  using assms
  by (simp add: render_def tab_panel_def guard_def bind_error_def Let_def split: sum.splits)

text \<open>
  C5, amended: with the data of a successful response whose statistical summary is
  there and the statistics tab active, a page that renders has the value of
  \<^verbatim>\<open>statistical_summary.biodiversity_summary.total_species\<close> in the cell for the total
  number of species, as it came. The page renders when the summary has what the tab needs:
  the numbers it formats and no plain object among the values it shows as they are. The
  fields that the specification names do not suffice for that.
\<close>

theorem statistics_tab_total_species:
  assumes "\<not> loading s" and "\<not> truthy_string (error s)" and "activeTab s = statistics"
    and "crossDomainData s = Some d" and "truthy (statistical_summary (visualizations d))"
  shows "(tab_statistical_summary (statistical_summary (visualizations d)) \<longrightarrow>
            (\<exists>v. render s = Inr v)) \<and>
         (\<forall>v. render s = Inr v \<longrightarrow>
            (\<exists>stats bs panel b ts.
               v = PageView stats bs (Some (StatisticsTab (Shown panel))) \<and>
               get (statistical_summary (visualizations d)) ''biodiversity_summary'' = Inr b \<and>
               get b ''total_species'' = Inr ts \<and>
               total_species (biodiversity_summary_cells panel) = Value ts))"
proof (intro conjI impI allI)
  assume "tab_statistical_summary (statistical_summary (visualizations d))"
  from statistics_block_total [OF this] obtain panel where
    "statistics_block (statistical_summary (visualizations d)) = Inr panel"
    "accepted_panel panel" by blast
  then show "\<exists>v. render s = Inr v"
    by (simp add: render_statistics [OF assms])
next
  fix v
  assume r: "render s = Inr v"
  then obtain panel where p: "statistics_block (statistical_summary (visualizations d)) = Inr panel"
    and v: "v = PageView (Some (overview_stats_block d)) tab_buttons
                  (Some (StatisticsTab (Shown panel)))"
    by (auto simp: render_statistics [OF assms] split: sum.splits if_splits)
  from statistics_block_cell [OF p] v
  show "\<exists>stats bs panel b ts.
          v = PageView stats bs (Some (StatisticsTab (Shown panel))) \<and>
          get (statistical_summary (visualizations d)) ''biodiversity_summary'' = Inr b \<and>
          get b ''total_species'' = Inr ts \<and>
          total_species (biodiversity_summary_cells panel) = Value ts"
    by blast
qed

subsection \<open>The example responses on the page\<close>

lemma example_loaded_eq:
  "example_loaded =
     \<lparr>crossDomainData = Some example_analysis, loading = False, error = None,
      activeTab = overview\<rparr>"
  by (simp add: example_loaded_def loadCrossDomainAnalysis_settled_def try_block_def mount_def
      loadCrossDomainAnalysis_request_def initial_state_def)

lemma example_contract: "tab_statistical_summary example_summary"
  by (simp add: example_summary_def tab_statistical_summary_def tab_biodiversity_summary_def
      tab_ocean_conditions_summary_def tab_ocean_row_def tab_correlation_insights_def
      tab_correlation_insight_def numeric_fields_def shown_fields_def)

theorem statistics_tab_total_species_witness:
  "\<not> loading (example_loaded\<lparr>activeTab := statistics\<rparr>) \<and>
   \<not> truthy_string (error (example_loaded\<lparr>activeTab := statistics\<rparr>)) \<and>
   activeTab (example_loaded\<lparr>activeTab := statistics\<rparr>) = statistics \<and>
   crossDomainData (example_loaded\<lparr>activeTab := statistics\<rparr>) = Some example_analysis \<and>
   truthy (statistical_summary (visualizations example_analysis)) \<and>
   tab_statistical_summary (statistical_summary (visualizations example_analysis)) \<and>
   (\<exists>stats bs panel.
      render (example_loaded\<lparr>activeTab := statistics\<rparr>)
        = Inr (PageView stats bs (Some (StatisticsTab (Shown panel)))) \<and>
      total_species (biodiversity_summary_cells panel) = Value (JNum 42))"
proof -
  have h1: "\<not> loading (example_loaded\<lparr>activeTab := statistics\<rparr>)"
    by (simp add: example_loaded_eq)
  have h2: "\<not> truthy_string (error (example_loaded\<lparr>activeTab := statistics\<rparr>))"
    by (simp add: example_loaded_eq truthy_string_def)
  have h3: "activeTab (example_loaded\<lparr>activeTab := statistics\<rparr>) = statistics"
    by simp
  have h4: "crossDomainData (example_loaded\<lparr>activeTab := statistics\<rparr>) = Some example_analysis"
    by (simp add: example_loaded_eq)
  have h5: "truthy (statistical_summary (visualizations example_analysis))"
    by (simp add: example_analysis_def example_summary_def)
  have h6: "tab_statistical_summary (statistical_summary (visualizations example_analysis))"
    by (simp add: example_analysis_def example_contract)
  note t = statistics_tab_total_species [OF h1 h2 h3 h4 h5]
  from t h6 obtain v where v: "render (example_loaded\<lparr>activeTab := statistics\<rparr>) = Inr v"
    by blast
  with t obtain stats bs panel b ts where
    r: "v = PageView stats bs (Some (StatisticsTab (Shown panel)))"
    and b: "get (statistical_summary (visualizations example_analysis)) ''biodiversity_summary'' = Inr b"
    and ts: "get b ''total_species'' = Inr ts"
    and cell: "total_species (biodiversity_summary_cells panel) = Value ts"
    by blast
  from b have "b = JObj [(''total_species'', JNum 42), (''total_observations'', JNum 1000),
                    (''abundance_stats'', JObj [(''mean'', JNum 2.5), (''max'', JNum 9)])]"
    by (simp add: example_analysis_def example_summary_def)
  with ts have "ts = JNum 42" by simp
  with v r cell h1 h2 h3 h4 h5 h6 show ?thesis by blast
qed

text \<open>
  The summary with the fields that the specification names and no others is there, and
  the statistics tab throws on it: it reads \<^verbatim>\<open>abundance_stats.mean\<close>, which the
  summary does not have.
\<close>

theorem statistics_tab_section3_counterexample:
  "\<not> loading bare_page \<and> \<not> truthy_string (error bare_page) \<and>
   activeTab bare_page = statistics \<and> crossDomainData bare_page = Some bare_analysis \<and>
   statistical_summary (visualizations bare_analysis) = bare_summary \<and>
   spec_statistical_summary bare_summary \<and>
   get bare_summary ''biodiversity_summary'' = Inr (JObj [(''total_species'', JNum 42)]) \<and>
   render bare_page = Inl TypeError"
  by (simp add: bare_page_def bare_analysis_def bare_summary_def truthy_string_def
      spec_statistical_summary_def spec_is_object_def spec_correlation_insight_def
      render_def tab_panel_def guard_def statistics_block_def biodiversity_summary_block_def
      bind_error_def)

text \<open>A plain object where the total number of species should be: every field has its
  number, and React throws when it builds the page.\<close>

lemma object_page_throws:
  "spec_statistical_summary object_summary \<and> render object_page = Inl InvalidChild"
  by (simp add: object_page_def object_summary_def example_analysis_def truthy_string_def
      spec_statistical_summary_def spec_is_object_def spec_correlation_insight_def
      render_def tab_panel_def guard_def statistics_block_def biodiversity_summary_block_def
      ocean_conditions_row_def correlation_insight_row_def significant_correlations_block_def
      accepted_panel_def accepted_biodiversity_def bind_error_def Let_def)

lemma render_example_overview:
  "render example_loaded =
     Inr (PageView (Some (overview_stats_block example_analysis)) tab_buttons (Some OverviewTab))"
  by (simp add: example_loaded_eq render_def truthy_string_def tab_panel_def bind_error_def)

lemma render_example_statistics:
  "\<exists>panel. render (example_loaded\<lparr>activeTab := statistics\<rparr>) =
     Inr (PageView (Some (overview_stats_block example_analysis)) tab_buttons panel)"
proof -
  from statistics_block_total [OF example_contract] obtain p where
    "statistics_block example_summary = Inr p" "accepted_panel p" by blast
  moreover have "truthy example_summary" by (simp add: example_summary_def)
  ultimately show ?thesis
    by (simp add: example_loaded_eq render_def truthy_string_def tab_panel_def guard_def
        bind_error_def example_analysis_def)
qed

theorem fetch_once_data_kept_witness:
  "crossDomainData example_loaded = Some example_analysis \<and> \<not> loading example_loaded \<and>
   \<not> truthy_string (error example_loaded) \<and>
   clicks [setActiveTab statistics, setActiveTab hotspots] example_loaded
     = Some (example_loaded\<lparr>activeTab := hotspots\<rparr>, []) \<and>
   crossDomainData (example_loaded\<lparr>activeTab := hotspots\<rparr>) = Some example_analysis"
proof -
  have h: "crossDomainData example_loaded = Some example_analysis" "\<not> loading example_loaded"
    "\<not> truthy_string (error example_loaded)"
    by (simp_all add: example_loaded_eq truthy_string_def)
  have c1: "click (setActiveTab statistics) example_loaded
              = Some (example_loaded\<lparr>activeTab := statistics\<rparr>, [])"
    by (simp add: click_def render_example_overview tab_buttons_def)
  obtain panel where "render (example_loaded\<lparr>activeTab := statistics\<rparr>) =
     Inr (PageView (Some (overview_stats_block example_analysis)) tab_buttons panel)"
    using render_example_statistics by blast
  then have c2: "click (setActiveTab hotspots) (example_loaded\<lparr>activeTab := statistics\<rparr>)
              = Some (example_loaded\<lparr>activeTab := hotspots\<rparr>, [])"
    by (simp add: click_def tab_buttons_def)
  have run: "clicks [setActiveTab statistics, setActiveTab hotspots] example_loaded
     = Some (example_loaded\<lparr>activeTab := hotspots\<rparr>, [])"
    by (simp add: c1 c2)
  from fetch_once_data_kept [of example_loaded example_analysis
      "[setActiveTab statistics, setActiveTab hotspots]" "example_loaded\<lparr>activeTab := hotspots\<rparr>" "[]"]
    h run
  show ?thesis by simp
qed

theorem request_and_body_witness:
  "ok \<lparr>ok = True, status = 200, json = Inr example_analysis\<rparr> \<and>
   json \<lparr>ok = True, status = 200, json = Inr example_analysis\<rparr> = Inr example_analysis \<and>
   crossDomainData (loadCrossDomainAnalysis_settled
      (Resolved \<lparr>ok = True, status = 200, json = Inr example_analysis\<rparr>) (fst mount))
     = Some example_analysis"
  using request_and_body [of "\<lparr>ok = True, status = 200, json = Inr example_analysis\<rparr>"
      example_analysis "fst mount"]
  by simp

section \<open>Properties of the home page\<close>

text \<open>
  C8: the ocean health score stays between 7.0 and 9.0: for a score in that interval and
  a change between -0.1 and 0.1 the updated score lies in it again, and so does the score
  after a tick of the interval, whose change comes from a random number in [0, 1).
\<close>

theorem oceanHealth_in_range:
  "7.0 \<le> score \<Longrightarrow> score \<le> 9.0 \<Longrightarrow>
     (- 0.1 \<le> delta \<and> delta \<le> 0.1 \<longrightarrow>
        7.0 \<le> oceanHealth_next score delta \<and> oceanHealth_next score delta \<le> 9.0) \<and>
     (0 \<le> random \<and> random < 1 \<longrightarrow>
        7.0 \<le> oceanHealth_updater random score \<and> oceanHealth_updater random score \<le> 9.0)"
  by (simp add: oceanHealth_next_def oceanHealth_updater_def)

theorem oceanHealth_in_range_witness:
  "(7.0::real) \<le> 8.2 \<and> (8.2::real) \<le> 9.0 \<and> - 0.1 \<le> (0.1::real) \<and> (0.1::real) \<le> 0.1 \<and>
   7.0 \<le> oceanHealth_next 8.2 0.1 \<and> oceanHealth_next 8.2 0.1 \<le> 9.0 \<and>
   (0::real) \<le> 0.75 \<and> (0.75::real) < 1 \<and>
   7.0 \<le> oceanHealth_updater 0.75 8.2 \<and> oceanHealth_updater 0.75 8.2 \<le> 9.0"
  using oceanHealth_in_range [of "8.2" "0.1" "0.75"] by simp

section \<open>Properties of the sidebar\<close>

lemma map_of_spread_with: "map_of (spread_with ps key b) = (map_of ps)(key \<mapsto> b)"
  by (induction ps) auto

lemma keys_spread_with:
  "map_of ps key = Some c \<Longrightarrow> map fst (spread_with ps key b) = map fst ps"
  by (induction ps) (auto split: if_splits)

text \<open>
  C10: each handler of the sidebar calls \<^verbatim>\<open>onFilterChange\<close> once, with the new
  filter state. \<open>toggleParameter\<close> keeps time and depth and every parameter but the one
  toggled; that one, when it is there, is negated and the keys keep their order.
  \<open>changeTime\<close> and \<open>changeDepth\<close> set their own field and keep the other two.
\<close>

theorem Sidebar_onFilterChange:
  "snd (toggleParameter key s) = [fst (toggleParameter key s)] \<and>
   time (fst (toggleParameter key s)) = time s \<and>
   depth (fst (toggleParameter key s)) = depth s \<and>
   (\<forall>k. k \<noteq> key \<longrightarrow>
      map_of (parameters (fst (toggleParameter key s))) k = map_of (parameters s) k) \<and>
   (\<forall>b. map_of (parameters s) key = Some b \<longrightarrow>
      map_of (parameters (fst (toggleParameter key s))) key = Some (\<not> b) \<and>
      map fst (parameters (fst (toggleParameter key s))) = map fst (parameters s)) \<and>
   snd (changeTime v s) = [fst (changeTime v s)] \<and>
   fst (changeTime v s) = \<lparr>parameters = parameters s, time = v, depth = depth s\<rparr> \<and>
   snd (changeDepth v s) = [fst (changeDepth v s)] \<and>
   fst (changeDepth v s) = \<lparr>parameters = parameters s, time = time s, depth = v\<rparr>"
  by (auto simp: toggleParameter_def changeTime_def changeDepth_def Let_def map_of_spread_with
      not_property_def keys_spread_with)

theorem Sidebar_onFilterChange_witness:
  "''temperature'' \<noteq> ''salinity'' \<and>
   map_of (parameters (fst (toggleParameter ''salinity'' Sidebar_initial))) ''temperature''
     = map_of (parameters Sidebar_initial) ''temperature'' \<and>
   map_of (parameters Sidebar_initial) ''salinity'' = Some False \<and>
   map_of (parameters (fst (toggleParameter ''salinity'' Sidebar_initial))) ''salinity''
     = Some True \<and>
   snd (toggleParameter ''salinity'' Sidebar_initial)
     = [fst (toggleParameter ''salinity'' Sidebar_initial)]"
proof -
  note t = Sidebar_onFilterChange [of "''salinity''" Sidebar_initial "''today''"]
  have h1: "''temperature'' \<noteq> ''salinity''" by simp
  have h2: "map_of (parameters Sidebar_initial) ''salinity'' = Some False"
    by (simp add: Sidebar_initial_def)
  from t have "\<forall>k. k \<noteq> ''salinity'' \<longrightarrow>
      map_of (parameters (fst (toggleParameter ''salinity'' Sidebar_initial))) k
        = map_of (parameters Sidebar_initial) k" by simp
  with h1 have a: "map_of (parameters (fst (toggleParameter ''salinity'' Sidebar_initial))) ''temperature''
     = map_of (parameters Sidebar_initial) ''temperature''" by simp
  from t have every: "\<forall>b. map_of (parameters Sidebar_initial) ''salinity'' = Some b \<longrightarrow>
      map_of (parameters (fst (toggleParameter ''salinity'' Sidebar_initial))) ''salinity'' = Some (\<not> b) \<and>
      map fst (parameters (fst (toggleParameter ''salinity'' Sidebar_initial)))
        = map fst (parameters Sidebar_initial)" by simp
  from every [rule_format, OF h2]
  have b: "map_of (parameters (fst (toggleParameter ''salinity'' Sidebar_initial))) ''salinity''
     = Some True" by simp
  from t have c: "snd (toggleParameter ''salinity'' Sidebar_initial)
     = [fst (toggleParameter ''salinity'' Sidebar_initial)]" by simp
  show ?thesis by (rule conjI h1 a h2 b c)+
qed

end
